theory Spec2Isabelle
  imports Complex_Main "HOL-Library.Sublist"
begin

section \<open>JavaScript values and the runtime operations the sources use\<close>

text \<open>
  The sources are ECMAScript modules.  Their data are JSON-shaped values: request bodies
  parsed by \<^verbatim>\<open>express.json()\<close>, records parsed by \<^verbatim>\<open>JSON.parse\<close>, object literals.
  A number is an IEEE double; every finite double is a rational, and the code only
  compares numbers and tests them for zero, so a finite number is a \<^typ>\<open>rat\<close> (negative
  zero is identified with zero) next to the three non-finite values.  A string is a list of
  code units; the model's code units are the 8-bit ones, so that it covers the strings whose
  code units lie below 256.  Which code units are white space, and how a string is mapped
  to lower case, are the runtime's to say (see \<open>builtins\<close>).
\<close>

datatype jsnum = NaN | PosInf | NegInf | Fin rat

datatype jsval =
    JUndefined
  | JNull
  | JBool bool
  | JNum jsnum
  | JStr string
  | JArr "jsval list"
  | JObj "(string \<times> jsval) list"

text \<open>A thrown value: the constructor is the error's \<^verbatim>\<open>name\<close>, the argument its \<^verbatim>\<open>message\<close>.\<close>

datatype js_error = Error string | TypeError string | SyntaxError string | FetchError string

fun error_name :: "js_error \<Rightarrow> string" where
  "error_name (Error m) = ''Error''"
| "error_name (TypeError m) = ''TypeError''"
| "error_name (SyntaxError m) = ''SyntaxError''"
| "error_name (FetchError m) = ''FetchError''"

fun error_message :: "js_error \<Rightarrow> string" where
  "error_message (Error m) = m"
| "error_message (TypeError m) = m"
| "error_message (SyntaxError m) = m"
| "error_message (FetchError m) = m"

text \<open>\<^verbatim>\<open>String(err.message || err)\<close>: the message, or for an empty message the error's
  own rendering, which is then its name.\<close>

definition error_details :: "js_error \<Rightarrow> string" where
  "error_details e = (if error_message e \<noteq> [] then error_message e else error_name e)"

text \<open>
  Five algorithms of the runtime are taken as parameters rather than re-implemented:
  the JSON parser (\<open>None\<close> when it throws a SyntaxError), the rendering of a finite
  number as a string, the reading of a string as a number, \<^verbatim>\<open>String.prototype.toLowerCase\<close>
  (Unicode case mapping) and the set of white space code units that
  \<^verbatim>\<open>String.prototype.trim\<close> strips.
\<close>

record builtins =
  JSON_parse :: "string \<Rightarrow> jsval option"
  Number_toString :: "rat \<Rightarrow> string"
  StringToNumber :: "string \<Rightarrow> jsnum"
  String_toLowerCase :: "string \<Rightarrow> string"
  WhiteSpace :: "char \<Rightarrow> bool"

fun truthy :: "jsval \<Rightarrow> bool" where
  "truthy JUndefined = False"
| "truthy JNull = False"
| "truthy (JBool b) = b"
| "truthy (JNum n) = (n \<noteq> NaN \<and> n \<noteq> Fin 0)"
| "truthy (JStr s) = (s \<noteq> [])"
| "truthy (JArr xs) = True"
| "truthy (JObj kvs) = True"

text \<open>\<^verbatim>\<open>a || b\<close> and \<^verbatim>\<open>a ?? b\<close>.\<close>

definition js_or :: "jsval \<Rightarrow> jsval \<Rightarrow> jsval" where
  "js_or a b = (if truthy a then a else b)"

definition nullish :: "jsval \<Rightarrow> jsval \<Rightarrow> jsval" where
  "nullish a b = (if a = JUndefined \<or> a = JNull then b else a)"

text \<open>
  Property read \<^verbatim>\<open>v.k\<close>, for the property names the sources read (\<^verbatim>\<open>text\<close>, \<^verbatim>\<open>title\<close>,
  \<^verbatim>\<open>tags\<close>, \<^verbatim>\<open>id\<close>, \<^verbatim>\<open>data\<close>, ...): none of them is a built-in property of an array, a
  string, a number or a boolean, so on those the read gives \<^verbatim>\<open>undefined\<close>.  On
  \<^verbatim>\<open>null\<close> and \<^verbatim>\<open>undefined\<close> it throws a TypeError.
\<close>

fun get_prop :: "jsval \<Rightarrow> string \<Rightarrow> js_error + jsval" where
  "get_prop JUndefined k = Inl (TypeError (''Cannot read properties of undefined (reading '' @ k @ '')''))"
| "get_prop JNull k = Inl (TypeError (''Cannot read properties of null (reading '' @ k @ '')''))"
| "get_prop (JObj kvs) k = Inr (case map_of kvs k of None \<Rightarrow> JUndefined | Some v \<Rightarrow> v)"
| "get_prop v k = Inr JUndefined"

text \<open>The same read where the receiver is known to be an object literal of the code.\<close>

definition field :: "(string \<times> jsval) list \<Rightarrow> string \<Rightarrow> jsval" where
  "field kvs k = (case map_of kvs k of None \<Rightarrow> JUndefined | Some v \<Rightarrow> v)"

fun join_comma :: "string list \<Rightarrow> string" where
  "join_comma [] = []"
| "join_comma [s] = s"
| "join_comma (s # t # ts) = s @ '','' @ join_comma (t # ts)"

definition num_to_string :: "builtins \<Rightarrow> jsnum \<Rightarrow> string" where
  "num_to_string B n =
     (case n of NaN \<Rightarrow> ''NaN'' | PosInf \<Rightarrow> ''Infinity'' | NegInf \<Rightarrow> ''-Infinity''
      | Fin r \<Rightarrow> Number_toString B r)"

text \<open>
  String conversion, as string concatenation and template literals apply it.  An object is
  converted through its \<^verbatim>\<open>toString\<close> and \<^verbatim>\<open>valueOf\<close> methods.  A parsed object inherits
  both; an own member named \<^verbatim>\<open>toString\<close> hides the inherited method and, being a JSON
  value, cannot be called, and the inherited (or an own) \<^verbatim>\<open>valueOf\<close> gives no primitive
  value, so the conversion of such an object throws a TypeError.  An array is converted by
  joining the conversions of its elements (\<^verbatim>\<open>null\<close> and \<^verbatim>\<open>undefined\<close> give the empty
  string), so an element of that kind makes the conversion of the array throw.
\<close>

definition cannot_convert :: js_error where
  "cannot_convert = TypeError ''Cannot convert object to primitive value''"

fun ToString :: "builtins \<Rightarrow> jsval \<Rightarrow> js_error + string"
  and Array_strs :: "builtins \<Rightarrow> jsval list \<Rightarrow> js_error + string list" where
  "ToString B JUndefined = Inr ''undefined''"
| "ToString B JNull = Inr ''null''"
| "ToString B (JBool b) = Inr (if b then ''true'' else ''false'')"
| "ToString B (JNum n) = Inr (num_to_string B n)"
| "ToString B (JStr s) = Inr s"
| "ToString B (JArr xs) =
     (case Array_strs B xs of Inl e \<Rightarrow> Inl e | Inr ss \<Rightarrow> Inr (join_comma ss))"
| "ToString B (JObj kvs) =
     (if map_of kvs ''toString'' = None then Inr ''[object Object]'' else Inl cannot_convert)"
| "Array_strs B [] = Inr []"
| "Array_strs B (x # xs) =
     (case (if x = JUndefined \<or> x = JNull then Inr [] else ToString B x) of
        Inl e \<Rightarrow> Inl e
      | Inr s \<Rightarrow> (case Array_strs B xs of Inl e \<Rightarrow> Inl e | Inr ss \<Rightarrow> Inr (s # ss)))"

text \<open>Sequencing of two steps of which the first may throw.\<close>

definition and_then :: "js_error + 'a \<Rightarrow> ('a \<Rightarrow> js_error + 'b) \<Rightarrow> js_error + 'b" where
  "and_then x f = (case x of Inl e \<Rightarrow> Inl e | Inr v \<Rightarrow> f v)"

subsection \<open>JSON.stringify\<close>

definition hex_digit :: "nat \<Rightarrow> char" where
  "hex_digit n = ''0123456789abcdef'' ! (n mod 16)"

definition json_escape :: "char \<Rightarrow> string" where
  "json_escape c =
     (if c = CHR 0x22 then [CHR 0x5C, CHR 0x22]
      else if c = CHR 0x5C then [CHR 0x5C, CHR 0x5C]
      else if c = CHR 0x08 then [CHR 0x5C, CHR ''b'']
      else if c = CHR 0x0C then [CHR 0x5C, CHR ''f'']
      else if c = CHR 0x0A then [CHR 0x5C, CHR ''n'']
      else if c = CHR 0x0D then [CHR 0x5C, CHR ''r'']
      else if c = CHR 0x09 then [CHR 0x5C, CHR ''t'']
      else if (of_char c :: nat) < 32
        then [CHR 0x5C, CHR ''u'', CHR ''0'', CHR ''0'',
              hex_digit (of_char c div 16), hex_digit (of_char c mod 16)]
      else [c])"

definition json_quote :: "string \<Rightarrow> string" where
  "json_quote s = [CHR 0x22] @ concat (map json_escape s) @ [CHR 0x22]"

text \<open>
  \<open>stringify\<close> renders a value that is not \<^verbatim>\<open>undefined\<close>; an \<^verbatim>\<open>undefined\<close> array
  element is rendered \<^verbatim>\<open>null\<close>, an object member whose value is \<^verbatim>\<open>undefined\<close> is left
  out, a non-finite number is \<^verbatim>\<open>null\<close>.  \<open>JSON_stringify\<close> is the call itself, which
  gives \<^verbatim>\<open>undefined\<close> for \<^verbatim>\<open>undefined\<close>.
\<close>

fun stringify :: "builtins \<Rightarrow> jsval \<Rightarrow> string"
  and elem_strs :: "builtins \<Rightarrow> jsval list \<Rightarrow> string list"
  and member_strs :: "builtins \<Rightarrow> (string \<times> jsval) list \<Rightarrow> string list" where
  "stringify B JUndefined = ''null''"
| "stringify B JNull = ''null''"
| "stringify B (JBool b) = (if b then ''true'' else ''false'')"
| "stringify B (JNum n) = (case n of Fin r \<Rightarrow> Number_toString B r | _ \<Rightarrow> ''null'')"
| "stringify B (JStr s) = json_quote s"
| "stringify B (JArr xs) = ''['' @ join_comma (elem_strs B xs) @ '']''"
| "stringify B (JObj kvs) = ''{'' @ join_comma (member_strs B kvs) @ ''}''"
| "elem_strs B [] = []"
| "elem_strs B (x # xs) = stringify B x # elem_strs B xs"
| "member_strs B [] = []"
| "member_strs B ((k, v) # kvs) =
     (if v = JUndefined then member_strs B kvs
      else (json_quote k @ '':'' @ stringify B v) # member_strs B kvs)"

definition JSON_stringify :: "builtins \<Rightarrow> jsval \<Rightarrow> jsval" where
  "JSON_stringify B v = (if v = JUndefined then JUndefined else JStr (stringify B v))"

subsection \<open>Strings\<close>

text \<open>\<^verbatim>\<open>h.includes(q)\<close>: \<open>q\<close> occurs in \<open>h\<close> as a contiguous run.\<close>

fun str_includes :: "string \<Rightarrow> string \<Rightarrow> bool" where
  "str_includes [] q = (q = [])"
| "str_includes (c # h) q = (prefix q (c # h) \<or> str_includes h q)"

text \<open>\<^verbatim>\<open>s.trim()\<close>: the white space at both ends is stripped.\<close>

definition trim :: "builtins \<Rightarrow> string \<Rightarrow> string" where
  "trim B s = rev (dropWhile (WhiteSpace B) (rev (dropWhile (WhiteSpace B) s)))"

text \<open>\<^verbatim>\<open>text.split("\n")\<close>: the pieces between line feeds; never the empty list.\<close>

fun split_lines :: "string \<Rightarrow> string list" where
  "split_lines [] = [[]]"
| "split_lines (c # cs) =
     (if c = CHR 0x0A then [] # split_lines cs
      else (case split_lines cs of [] \<Rightarrow> [[c]] | l # ls \<Rightarrow> (c # l) # ls))"

section \<open>Linear memory search (src/mcp-server.mjs)\<close>

text \<open>The process environment: a variable is unset or holds a string; \<^verbatim>\<open>!X\<close> holds
  for an unset and for an empty one.\<close>

record env =
  OPENAI_API_KEY :: "string option"
  VECTOR_STORE_ID :: "string option"
  TRAKT_CLIENT_ID :: "string option"
  TRAKT_ACCESS_TOKEN :: "string option"

definition is_set :: "string option \<Rightarrow> bool" where
  "is_set v = (case v of None \<Rightarrow> False | Some s \<Rightarrow> s \<noteq> [])"

text \<open>An HTTP response as the code reads it: \<^verbatim>\<open>ok\<close>, \<^verbatim>\<open>status\<close> and the body text.
  A call of \<^verbatim>\<open>fetch\<close> either rejects (\<open>Inl\<close>) or resolves with a response.\<close>

record response =
  resp_ok :: bool
  resp_status :: nat
  resp_body :: string

text \<open>What the store answers during one search: the listing call, and the content call
  for each file id.\<close>

record store =
  list_files :: "js_error + response"
  file_content :: "string \<Rightarrow> js_error + response"

text \<open>\<^verbatim>\<open>Array.isArray(doc.tags) ? doc.tags : []\<close>, given the value read from \<^verbatim>\<open>doc.tags\<close>.\<close>

definition tags_array :: "jsval \<Rightarrow> jsval list" where
  "tags_array tv = (case tv of JArr ts \<Rightarrow> ts | _ \<Rightarrow> [])"

text \<open>A property read on a receiver that is known to be neither \<^verbatim>\<open>null\<close> nor
  \<^verbatim>\<open>undefined\<close>: one on which an earlier read has succeeded, or a truthy value.\<close>

definition rd :: "jsval \<Rightarrow> string \<Rightarrow> jsval" where
  "rd v k = (case get_prop v k of Inl e \<Rightarrow> JUndefined | Inr x \<Rightarrow> x)"

text \<open>\<^verbatim>\<open>requiredTags.every((t) => tags.includes(t))\<close>; the requested tags are strings, and
  \<^verbatim>\<open>includes\<close> compares without conversion.\<close>

definition hasAll :: "string list \<Rightarrow> jsval list \<Rightarrow> bool" where
  "hasAll requiredTags tags = list_all (\<lambda>t. JStr t \<in> set tags) requiredTags"

text \<open>\<^verbatim>\<open>(doc.k || "")\<close> as the concatenation converts it.\<close>

definition or_empty :: "builtins \<Rightarrow> jsval \<Rightarrow> string \<Rightarrow> js_error + string" where
  "or_empty B doc k = ToString B (js_or (rd doc k) (JStr []))"

text \<open>The haystack.  The operands are converted from left to right, and the first
  conversion that throws ends the evaluation; \<^verbatim>\<open>JSON.stringify(tags)\<close> does not throw.\<close>

definition haystack :: "builtins \<Rightarrow> jsval \<Rightarrow> jsval list \<Rightarrow> js_error + string" where
  "haystack B doc tags =
     and_then (or_empty B doc ''text'') (\<lambda>t.
     and_then (or_empty B doc ''title'') (\<lambda>ti.
     and_then (or_empty B doc ''comment'') (\<lambda>c.
     and_then (or_empty B doc ''kind'') (\<lambda>kd.
     and_then (or_empty B doc ''type'') (\<lambda>ty.
       Inr (String_toLowerCase B
              (t @ '' '' @ ti @ '' '' @ c @ '' '' @ stringify B (JArr tags) @ '' '' @
               kd @ '' '' @ ty)))))))"

definition make_result :: "builtins \<Rightarrow> jsval \<Rightarrow> jsval list \<Rightarrow> jsval" where
  "make_result B doc tags =
     JObj [(''text'', js_or (rd doc ''text'') (js_or (rd doc ''title'') (JSON_stringify B doc))),
           (''kind'', js_or (rd doc ''kind'') (js_or (rd doc ''type'') (JStr ''unknown''))),
           (''tags'', JArr tags),
           (''created_at'', js_or (rd doc ''created_at'') (js_or (rd doc ''marked_at'') JNull)),
           (''score'', JNum (Fin 1))]"

text \<open>
  The body of the inner loop for one line: \<open>Inr None\<close> is \<^verbatim>\<open>continue\<close>,
  \<open>Inr (Some r)\<close> is \<^verbatim>\<open>results.push(r)\<close>, \<open>Inl e\<close> is an exception that leaves the
  search: only \<^verbatim>\<open>JSON.parse\<close> stands inside the \<^verbatim>\<open>try\<close>, so the read of \<^verbatim>\<open>doc.tags\<close>
  and the construction of the haystack throw out of the function.
\<close>

definition scan_line ::
  "builtins \<Rightarrow> string \<Rightarrow> string list option \<Rightarrow> string \<Rightarrow> js_error + jsval option" where
  "scan_line B queryLower requiredTags line =
     (case JSON_parse B line of
        None \<Rightarrow> Inr None
      | Some doc \<Rightarrow>
          (case get_prop doc ''tags'' of
             Inl e \<Rightarrow> Inl e
           | Inr tv \<Rightarrow>
               (let tags = tags_array tv in
                if (case requiredTags of None \<Rightarrow> False | Some rts \<Rightarrow> \<not> hasAll rts tags)
                then Inr None
                else (case haystack B doc tags of
                        Inl e \<Rightarrow> Inl e
                      | Inr h \<Rightarrow>
                          if \<not> str_includes h queryLower then Inr None
                          else Inr (Some (make_result B doc tags))))))"

fun scan_lines ::
  "builtins \<Rightarrow> string \<Rightarrow> int \<Rightarrow> string list option \<Rightarrow> string list \<Rightarrow> jsval list
     \<Rightarrow> js_error + jsval list" where
  "scan_lines B queryLower maxResults requiredTags [] results = Inr results"
| "scan_lines B queryLower maxResults requiredTags (line # lines) results =
     (if int (length results) \<ge> maxResults then Inr results
      else (case scan_line B queryLower requiredTags line of
              Inl e \<Rightarrow> Inl e
            | Inr None \<Rightarrow> scan_lines B queryLower maxResults requiredTags lines results
            | Inr (Some r) \<Rightarrow>
                scan_lines B queryLower maxResults requiredTags lines (results @ [r])))"

text \<open>\<^verbatim>\<open>text.split("\n").filter((line) => line.trim().length > 0)\<close>\<close>

definition nonblank_lines :: "builtins \<Rightarrow> string \<Rightarrow> string list" where
  "nonblank_lines B txt = filter (\<lambda>line. length (trim B line) > 0) (split_lines txt)"

text \<open>The outer loop.  The state is the results so far and the ids whose content has
  been requested, in order; the id is \<^verbatim>\<open>file.id\<close> as the template literal of the URL
  converts it.\<close>

fun scan_files ::
  "builtins \<Rightarrow> store \<Rightarrow> string \<Rightarrow> int \<Rightarrow> string list option \<Rightarrow> jsval list
     \<Rightarrow> jsval list \<times> string list \<Rightarrow> js_error + jsval list \<times> string list" where
  "scan_files B S queryLower maxResults requiredTags [] st = Inr st"
| "scan_files B S queryLower maxResults requiredTags (file # files) (results, fetched) =
     (if int (length results) \<ge> maxResults then Inr (results, fetched)
      else (case and_then (get_prop file ''id'') (ToString B) of
              Inl e \<Rightarrow> Inl e
            | Inr fid \<Rightarrow>
                (case file_content S fid of
                   Inl e \<Rightarrow> Inl e
                 | Inr fileResp \<Rightarrow>
                     if \<not> resp_ok fileResp
                     then scan_files B S queryLower maxResults requiredTags files
                            (results, fetched @ [fid])
                     else if resp_body fileResp = []
                     then scan_files B S queryLower maxResults requiredTags files
                            (results, fetched @ [fid])
                     else (case scan_lines B queryLower maxResults requiredTags
                                  (nonblank_lines B (resp_body fileResp)) results of
                             Inl e \<Rightarrow> Inl e
                           | Inr results' \<Rightarrow>
                               scan_files B S queryLower maxResults requiredTags files
                                 (results', fetched @ [fid])))))"

text \<open>\<^verbatim>\<open>results.slice(0, n)\<close> for an integer \<open>n\<close>; a negative end counts from the end.\<close>

definition slice0 :: "'a list \<Rightarrow> int \<Rightarrow> 'a list" where
  "slice0 xs n = (if n < 0 then take (nat (int (length xs) + n)) xs else take (nat n) xs)"

text \<open>\<^verbatim>\<open>topK || 10\<close> and \<^verbatim>\<open>filterTags && filterTags.length > 0 ? filterTags : null\<close>.\<close>

definition max_results :: "int option \<Rightarrow> int" where
  "max_results topK = (case topK of None \<Rightarrow> 10 | Some k \<Rightarrow> if k = 0 then 10 else k)"

definition required_tags :: "string list option \<Rightarrow> string list option" where
  "required_tags filterTags =
     (case filterTags of None \<Rightarrow> None | Some ts \<Rightarrow> if length ts > 0 then Some ts else None)"

text \<open>The listing call and the reading of its answer (the head of the function, up to
  \<^verbatim>\<open>const files = ...\<close>).\<close>

definition listed_files :: "builtins \<Rightarrow> store \<Rightarrow> js_error + jsval list" where
  "listed_files B S =
     (case list_files S of
        Inl e \<Rightarrow> Inl e
      | Inr listResp \<Rightarrow>
          if \<not> resp_ok listResp
          then Inl (Error (''Vector store list failed '' @
                      Number_toString B (of_nat (resp_status listResp)) @ '': '' @
                      resp_body listResp))
          else (case JSON_parse B (resp_body listResp) of
                  None \<Rightarrow> Inl (SyntaxError ''Unexpected token in JSON'')
                | Some listData \<Rightarrow>
                    (case get_prop listData ''data'' of
                       Inl e \<Rightarrow> Inl e
                     | Inr d \<Rightarrow> Inr (case d of JArr fs \<Rightarrow> fs | _ \<Rightarrow> []))))"

definition naiveVectorStoreSearch ::
  "builtins \<Rightarrow> env \<Rightarrow> store \<Rightarrow> string \<Rightarrow> int option \<Rightarrow> string list option
     \<Rightarrow> js_error + jsval list \<times> string list" where
  "naiveVectorStoreSearch B E S query topK filterTags =
     (if \<not> is_set (OPENAI_API_KEY E) \<or> \<not> is_set (VECTOR_STORE_ID E)
      then Inl (Error ''OPENAI_API_KEY or VECTOR_STORE_ID not configured'')
      else (case listed_files B S of
              Inl e \<Rightarrow> Inl e
            | Inr files \<Rightarrow>
                (case scan_files B S (String_toLowerCase B query) (max_results topK)
                        (required_tags filterTags) files ([], []) of
                   Inl e \<Rightarrow> Inl e
                 | Inr (results, fetched) \<Rightarrow>
                     Inr (slice0 results (max_results topK), fetched))))"

text \<open>The \<^verbatim>\<open>memory_search\<close> tool: its input schema, and its handler, which returns the
  structured output \<^verbatim>\<open>{ results }\<close> (the text rendering of the same object is not
  modelled).\<close>

definition memorySearchSchema :: "string \<Rightarrow> int option \<Rightarrow> string list option \<Rightarrow> bool" where
  "memorySearchSchema query top_k filter_tags =
     (length query \<ge> 1 \<and> (case top_k of None \<Rightarrow> True | Some k \<Rightarrow> 1 \<le> k \<and> k \<le> 50))"

definition memory_search ::
  "builtins \<Rightarrow> env \<Rightarrow> store \<Rightarrow> string \<Rightarrow> int option \<Rightarrow> string list option \<Rightarrow> js_error + jsval" where
  "memory_search B E S query top_k filter_tags =
     (case naiveVectorStoreSearch B E S query (Some (max_results top_k)) filter_tags of
        Inl e \<Rightarrow> Inl e
      | Inr (results, fetched) \<Rightarrow> Inr (JObj [(''results'', JArr results)]))"

section \<open>Document codec (src/server.mjs, \<^verbatim>\<open>buildMovieDocument\<close>)\<close>

text \<open>
  The object literal that \<^verbatim>\<open>buildMovieDocument\<close> passes to \<^verbatim>\<open>JSON.stringify\<close>, in the order
  of its keys.  \<open>now\<close> is \<^verbatim>\<open>new Date().toISOString()\<close>, read when the function runs;
  \<open>movie\<close> is the caller's object literal.  The line ends with the line feed that the
  function appends (the string \<^verbatim>\<open>"\n"\<close>, as in \<^verbatim>\<open>memory_write\<close>; the stored copy of the
  source shows it as a line break between the two quotes).
\<close>

definition movie_record :: "string \<Rightarrow> (string \<times> jsval) list \<Rightarrow> (string \<times> jsval) list" where
  "movie_record now movie =
     [(''type'', js_or (field movie ''type'') (JStr ''movie_seen'')),
      (''title'', field movie ''title''),
      (''year'', nullish (field movie ''year'') JNull),
      (''trakt_id'', nullish (field movie ''trakt_id'') JNull),
      (''imdb'', nullish (field movie ''imdb'') JNull),
      (''slug'', nullish (field movie ''slug'') JNull),
      (''tmdb'', nullish (field movie ''tmdb'') JNull),
      (''rating'', nullish (field movie ''rating'') JNull),
      (''liked'', nullish (field movie ''liked'') JNull),
      (''state'', nullish (field movie ''state'') (JStr ''seen'')),
      (''source'', nullish (field movie ''source'') (JStr ''manual'')),
      (''marked_at'', JStr now),
      (''tags'', nullish (field movie ''tags'') (JArr [])),
      (''comment'', nullish (field movie ''comment'') JNull)]"

definition buildMovieDocument :: "builtins \<Rightarrow> string \<Rightarrow> (string \<times> jsval) list \<Rightarrow> string" where
  "buildMovieDocument B now movie = stringify B (JObj (movie_record now movie)) @ [CHR 0x0A]"

section \<open>Store uploader (\<^verbatim>\<open>uploadTextToVectorStore\<close>, src/vector-helpers.mjs and src/server.mjs)\<close>

text \<open>
  The two copies of the function are the same code.  What the outside answers during one
  call: the temporary path the call computes, the outcome of writing the file, of
  \<^verbatim>\<open>openai.files.create\<close> (the id of the file object), of the attach request and of the
  unlink.  The unlink is started in the \<^verbatim>\<open>finally\<close> block and not awaited, so the call
  settles while the unlink is in flight: \<open>unlinked_at_return\<close> says whether the removal has
  already taken effect at that moment, \<open>unlink\<close> is the outcome the unlink settles with
  later.  The file system maps a path to its content.  Every external call is logged.
\<close>

record upload_io =
  tmpPath :: string
  writeFile :: "js_error option"
  files_create :: "js_error + string"
  attach :: "js_error + response"
  unlink :: "js_error option"
  unlinked_at_return :: bool

datatype io_call =
    WriteFile string string
  | FilesCreate string
  | AttachFile string
  | Unlink string
  | TraktPost string string
  | TraktGet string

type_synonym filesystem = "string \<Rightarrow> string option"

text \<open>The \<^verbatim>\<open>try\<close> block: its result (the \<^verbatim>\<open>catch\<close> logs and rethrows) and its calls.\<close>

definition upload_try :: "builtins \<Rightarrow> upload_io \<Rightarrow> (js_error + string) \<times> io_call list" where
  "upload_try B U =
     (case files_create U of
        Inl e \<Rightarrow> (Inl e, [FilesCreate (tmpPath U)])
      | Inr fileId \<Rightarrow>
          (case attach U of
             Inl e \<Rightarrow> (Inl e, [FilesCreate (tmpPath U), AttachFile fileId])
           | Inr resp \<Rightarrow>
               (if \<not> resp_ok resp
                then Inl (Error (''Vector store attach failed '' @
                            Number_toString B (of_nat (resp_status resp)) @ '': '' @ resp_body resp))
                else (case JSON_parse B (resp_body resp) of
                        None \<Rightarrow> Inl (SyntaxError ''Unexpected token in JSON'')
                      | Some vsFile \<Rightarrow>
                          (case get_prop vsFile ''id'' of
                             Inl e \<Rightarrow> Inl e
                           | Inr vsId \<Rightarrow> Inr fileId)),
                [FilesCreate (tmpPath U), AttachFile fileId])))"

text \<open>
  The whole call.  The write stands before the \<^verbatim>\<open>try\<close>: when it fails the error leaves
  the function and no \<^verbatim>\<open>finally\<close> runs (a failed write is taken to leave the file
  system as it was).  The \<^verbatim>\<open>finally\<close> block starts the unlink and swallows its
  failure.  The file system returned is the one at the moment the call settles: the
  temporary file is gone only if the removal has already taken effect.  \<open>after_unlink\<close>
  gives the file system once the unlink has settled.
\<close>

definition uploadTextToVectorStore ::
  "builtins \<Rightarrow> upload_io \<Rightarrow> filesystem \<Rightarrow> string
     \<Rightarrow> (js_error + string) \<times> filesystem \<times> io_call list" where
  "uploadTextToVectorStore B U fs txt =
     (case writeFile U of
        Some e \<Rightarrow> (Inl e, fs, [WriteFile (tmpPath U) txt])
      | None \<Rightarrow>
          (fst (upload_try B U),
           (if unlink U = None \<and> unlinked_at_return U
            then (fs(tmpPath U \<mapsto> txt))(tmpPath U := None)
            else fs(tmpPath U \<mapsto> txt)),
           [WriteFile (tmpPath U) txt] @ snd (upload_try B U) @ [Unlink (tmpPath U)]))"

definition after_unlink :: "upload_io \<Rightarrow> filesystem \<Rightarrow> filesystem" where
  "after_unlink U fs = (case unlink U of None \<Rightarrow> fs(tmpPath U := None) | Some e \<Rightarrow> fs)"

section \<open>Tracking service (src/server.mjs)\<close>

text \<open>\<^verbatim>\<open>Math.min\<close> and \<^verbatim>\<open>Math.max\<close> on two numbers: NaN if either is NaN.\<close>

fun num_le :: "jsnum \<Rightarrow> jsnum \<Rightarrow> bool" where
  "num_le NaN b = False"
| "num_le a NaN = False"
| "num_le NegInf b = True"
| "num_le a PosInf = True"
| "num_le PosInf b = False"
| "num_le a NegInf = False"
| "num_le (Fin x) (Fin y) = (x \<le> y)"

definition Math_min :: "jsnum \<Rightarrow> jsnum \<Rightarrow> jsnum" where
  "Math_min a b = (if a = NaN \<or> b = NaN then NaN else if num_le a b then a else b)"

definition Math_max :: "jsnum \<Rightarrow> jsnum \<Rightarrow> jsnum" where
  "Math_max a b = (if a = NaN \<or> b = NaN then NaN else if num_le a b then b else a)"

text \<open>\<^verbatim>\<open>Number(v)\<close>: an array or an object is first converted to a primitive value, which
  throws where its conversion to a string throws.\<close>

definition ToNumber :: "builtins \<Rightarrow> jsval \<Rightarrow> js_error + jsnum" where
  "ToNumber B v =
     (case v of
        JUndefined \<Rightarrow> Inr NaN
      | JNull \<Rightarrow> Inr (Fin 0)
      | JBool b \<Rightarrow> Inr (Fin (if b then 1 else 0))
      | JNum n \<Rightarrow> Inr n
      | JStr s \<Rightarrow> Inr (StringToNumber B s)
      | JArr xs \<Rightarrow> and_then (ToString B (JArr xs)) (\<lambda>s. Inr (StringToNumber B s))
      | JObj kvs \<Rightarrow> and_then (ToString B (JObj kvs)) (\<lambda>s. Inr (StringToNumber B s)))"

text \<open>\<^verbatim>\<open>n || d\<close> on numbers.\<close>

definition num_or :: "jsnum \<Rightarrow> jsnum \<Rightarrow> jsnum" where
  "num_or n d = (if truthy (JNum n) then n else d)"

text \<open>\<^verbatim>\<open>safeLimit\<close> of \<^verbatim>\<open>traktFetchHistory(limit = 200)\<close>: the default stands in for an
  argument that is \<^verbatim>\<open>undefined\<close>.\<close>

definition safeLimit :: "builtins \<Rightarrow> jsval \<Rightarrow> js_error + jsnum" where
  "safeLimit B limit =
     and_then (ToNumber B (if limit = JUndefined then JNum (Fin 200) else limit))
       (\<lambda>n. Inr (Math_max (Fin 1) (Math_min (num_or n (Fin 200)) (Fin 500))))"

definition trakt_configured :: "env \<Rightarrow> bool" where
  "trakt_configured E = (is_set (TRAKT_CLIENT_ID E) \<and> is_set (TRAKT_ACCESS_TOKEN E))"

definition not_configured :: js_error where
  "not_configured = Error ''TRAKT_CLIENT_ID or TRAKT_ACCESS_TOKEN not configured. Check your .env''"

text \<open>\<^verbatim>\<open>traktFetchHistory\<close>: \<open>get\<close> is the outcome of the one request it sends.\<close>

definition traktFetchHistory ::
  "builtins \<Rightarrow> env \<Rightarrow> (js_error + response) \<Rightarrow> jsval \<Rightarrow> (js_error + jsval) \<times> io_call list" where
  "traktFetchHistory B E get limit =
     (if \<not> trakt_configured E then (Inl not_configured, [])
      else
        (case safeLimit B limit of
           Inl e \<Rightarrow> (Inl e, [])
         | Inr n \<Rightarrow>
             (case get of
                Inl e \<Rightarrow> Inl e
              | Inr resp \<Rightarrow>
                  if \<not> resp_ok resp
                  then Inl (Error (''Trakt history error '' @
                              Number_toString B (of_nat (resp_status resp)) @ '': '' @
                              resp_body resp))
                  else (case JSON_parse B (resp_body resp) of
                          None \<Rightarrow> Inl (SyntaxError ''Unexpected token in JSON'')
                        | Some v \<Rightarrow> Inr v),
              [TraktGet (''https://api.trakt.tv/sync/history/movies?limit='' @
                         num_to_string B n)])))"

text \<open>The \<^verbatim>\<open>ids\<close> object of \<^verbatim>\<open>traktAddToHistory\<close>: one member for each id that is truthy.\<close>

definition trakt_ids :: "(string \<times> jsval) list \<Rightarrow> (string \<times> jsval) list" where
  "trakt_ids ids =
     (if truthy (field ids ''trakt_id'') then [(''trakt'', field ids ''trakt_id'')] else []) @
     (if truthy (field ids ''imdb'') then [(''imdb'', field ids ''imdb'')] else []) @
     (if truthy (field ids ''slug'') then [(''slug'', field ids ''slug'')] else []) @
     (if truthy (field ids ''tmdb'') then [(''tmdb'', field ids ''tmdb'')] else [])"

definition traktAddToHistory ::
  "builtins \<Rightarrow> env \<Rightarrow> (js_error + response) \<Rightarrow> (string \<times> jsval) list
     \<Rightarrow> (js_error + jsval) \<times> io_call list" where
  "traktAddToHistory B E post ids =
     (if \<not> trakt_configured E then (Inl not_configured, [])
      else if length (trakt_ids ids) = 0
      then (Inl (Error ''No valid ids provided for Trakt history (need trakt_id, imdb, slug or tmdb)''), [])
      else
        (case post of
           Inl e \<Rightarrow> Inl e
         | Inr resp \<Rightarrow>
             if \<not> resp_ok resp
             then Inl (Error (''Trakt add-to-history error '' @
                         Number_toString B (of_nat (resp_status resp)) @ '': '' @ resp_body resp))
             else if resp_body resp \<noteq> []
             then (case JSON_parse B (resp_body resp) of
                     None \<Rightarrow> Inl (SyntaxError ''Unexpected token in JSON'')
                   | Some v \<Rightarrow> Inr v)
             else Inr (JObj [(''ok'', JBool True)]),
         [TraktPost ''https://api.trakt.tv/sync/history''
            (stringify B (JObj [(''movies'', JArr [JObj [(''ids'', JObj (trakt_ids ids))]])]))]))"

section \<open>The route \<^verbatim>\<open>POST /mark-seen\<close> (src/server.mjs)\<close>

record http_response =
  status :: nat
  json :: jsval

text \<open>The outside during one request: the clock, the uploader's outside, and the outcome
  of the request to the tracking service.\<close>

record mark_seen_io =
  clock :: string
  uploader :: upload_io
  trakt_post :: "js_error + response"

definition is_string :: "jsval \<Rightarrow> bool" where
  "is_string v = (case v of JStr s \<Rightarrow> True | _ \<Rightarrow> False)"

text \<open>\<^verbatim>\<open>req.body || {}\<close>, and a destructured name with the default \<^verbatim>\<open>true\<close>.\<close>

definition request_body :: "jsval \<Rightarrow> jsval" where
  "request_body b = js_or b (JObj [])"

definition syncTrakt_of :: "jsval \<Rightarrow> jsval" where
  "syncTrakt_of body =
     (if rd body ''syncTrakt'' = JUndefined then JBool True else rd body ''syncTrakt'')"

definition mark_seen_movie :: "jsval \<Rightarrow> (string \<times> jsval) list" where
  "mark_seen_movie body =
     [(''type'', JStr ''movie_seen''),
      (''title'', rd body ''title''),
      (''year'', rd body ''year''),
      (''trakt_id'', rd body ''trakt_id''),
      (''imdb'', rd body ''imdb''),
      (''slug'', rd body ''slug''),
      (''tmdb'', rd body ''tmdb''),
      (''rating'', rd body ''rating''),
      (''liked'', rd body ''liked''),
      (''state'', JStr ''seen''),
      (''source'', JStr (if truthy (syncTrakt_of body) then ''mark_seen_trakt+vector''
                         else ''mark_seen_vector_only'')),
      (''tags'', rd body ''tags''),
      (''comment'', rd body ''comment'')]"

definition mark_seen_ids :: "jsval \<Rightarrow> (string \<times> jsval) list" where
  "mark_seen_ids body =
     [(''trakt_id'', rd body ''trakt_id''), (''imdb'', rd body ''imdb''),
      (''slug'', rd body ''slug''), (''tmdb'', rd body ''tmdb'')]"

text \<open>The condition under which the route mirrors the record to the tracking service.\<close>

definition wants_trakt :: "env \<Rightarrow> jsval \<Rightarrow> bool" where
  "wants_trakt E body =
     (truthy (syncTrakt_of body) \<and>
      (truthy (rd body ''trakt_id'') \<or> truthy (rd body ''imdb'') \<or>
       truthy (rd body ''slug'') \<or> truthy (rd body ''tmdb'')) \<and>
      is_set (TRAKT_CLIENT_ID E) \<and> is_set (TRAKT_ACCESS_TOKEN E))"

definition stored_of :: "jsval \<Rightarrow> jsval" where
  "stored_of body =
     JObj [(''title'', rd body ''title''),
           (''year'', nullish (rd body ''year'') JNull),
           (''trakt_id'', nullish (rd body ''trakt_id'') JNull),
           (''imdb'', nullish (rd body ''imdb'') JNull),
           (''slug'', nullish (rd body ''slug'') JNull),
           (''tmdb'', nullish (rd body ''tmdb'') JNull),
           (''rating'', nullish (rd body ''rating'') JNull),
           (''liked'', nullish (rd body ''liked'') JNull),
           (''tags'', nullish (rd body ''tags'') (JArr []))]"

text \<open>The second step of the route: the mirror call inside its own \<^verbatim>\<open>try\<close>.\<close>

definition mirror :: "builtins \<Rightarrow> env \<Rightarrow> mark_seen_io \<Rightarrow> jsval \<Rightarrow> jsval \<times> io_call list" where
  "mirror B E W body =
     (if wants_trakt E body
      then (case traktAddToHistory B E (trakt_post W) (mark_seen_ids body) of
              (Inl err, calls) \<Rightarrow> (JObj [(''error'', JStr (error_details err))], calls)
            | (Inr v, calls) \<Rightarrow> (v, calls))
      else (JNull, []))"

definition mark_seen ::
  "builtins \<Rightarrow> env \<Rightarrow> mark_seen_io \<Rightarrow> filesystem \<Rightarrow> jsval
     \<Rightarrow> http_response \<times> filesystem \<times> io_call list" where
  "mark_seen B E W fs req_body =
     (let body = request_body req_body in
      if \<not> truthy (rd body ''title'') \<or> \<not> is_string (rd body ''title'')
      then (\<lparr>status = 400, json = JObj [(''error'', JStr ''title is required (string)'')]\<rparr>, fs, [])
      else
        (case uploadTextToVectorStore B (uploader W) fs
                (buildMovieDocument B (clock W) (mark_seen_movie body)) of
           (Inl err, fs', calls) \<Rightarrow>
             (\<lparr>status = 500,
               json = JObj [(''error'', JStr ''internal_error''),
                            (''details'', JStr (error_details err))]\<rparr>, fs', calls)
         | (Inr fileId, fs', calls) \<Rightarrow>
             (\<lparr>status = 200,
               json = JObj [(''ok'', JBool True),
                            (''stored'', stored_of body),
                            (''vectorStoreFileId'', JStr fileId),
                            (''trakt'', fst (mirror B E W body))]\<rparr>,
              fs', calls @ snd (mirror B E W body))))"

section \<open>The tool \<^verbatim>\<open>memory_write\<close> (src/mcp-server.mjs)\<close>

text \<open>The input schema: \<^verbatim>\<open>kind\<close>, \<^verbatim>\<open>text\<close> and \<^verbatim>\<open>source\<close> are strings, \<^verbatim>\<open>text\<close> of length at
  least 1; \<^verbatim>\<open>tags\<close> is absent or an array of strings.  The types carry all of it but the
  length.\<close>

definition memoryWriteSchema :: "string \<Rightarrow> string \<Rightarrow> string \<Rightarrow> string list option \<Rightarrow> bool" where
  "memoryWriteSchema kind txt source tags = (length txt \<ge> 1)"

definition memory_doc :: "builtins \<Rightarrow> string \<Rightarrow> string \<Rightarrow> string \<Rightarrow> string \<Rightarrow> string list option \<Rightarrow> string" where
  "memory_doc B now kind txt source tags =
     stringify B
       (JObj [(''kind'', JStr kind), (''text'', JStr txt), (''source'', JStr source),
              (''tags'', JArr (map JStr (case tags of None \<Rightarrow> [] | Some ts \<Rightarrow> ts))),
              (''created_at'', JStr now)]) @ [CHR 0x0A]"

text \<open>The handler; its value is the structured output (the text rendering of the same
  object is not modelled).\<close>

definition memory_write ::
  "builtins \<Rightarrow> string \<Rightarrow> upload_io \<Rightarrow> filesystem \<Rightarrow> string \<Rightarrow> string \<Rightarrow> string
     \<Rightarrow> string list option \<Rightarrow> (js_error + jsval) \<times> filesystem \<times> io_call list" where
  "memory_write B now U fs kind txt source tags =
     (case uploadTextToVectorStore B U fs (memory_doc B now kind txt source tags) of
        (Inl err, fs', calls) \<Rightarrow> (Inl err, fs', calls)
      | (Inr fileId, fs', calls) \<Rightarrow>
          (Inr (JObj [(''ok'', JBool True), (''vectorStoreFileId'', JStr fileId)]), fs', calls))"

section \<open>Notions used to state the properties\<close>

text \<open>The results that one line contributes, and those of a list of lines, in order.\<close>

definition line_matches :: "builtins \<Rightarrow> string \<Rightarrow> string list option \<Rightarrow> string \<Rightarrow> jsval list" where
  "line_matches B ql req line =
     (case scan_line B ql req line of Inr (Some r) \<Rightarrow> [r] | _ \<Rightarrow> [])"

definition lines_matches ::
  "builtins \<Rightarrow> string \<Rightarrow> string list option \<Rightarrow> string list \<Rightarrow> jsval list" where
  "lines_matches B ql req lines = concat (map (line_matches B ql req) lines)"

text \<open>The lines of a listed file that the search can scan: those of a content response
  with \<^verbatim>\<open>ok\<close> set that are not blank.\<close>

definition file_lines :: "builtins \<Rightarrow> store \<Rightarrow> jsval \<Rightarrow> string list" where
  "file_lines B S file =
     (case and_then (get_prop file ''id'') (ToString B) of
        Inl e \<Rightarrow> []
      | Inr fid \<Rightarrow>
          (case file_content S fid of
             Inl e \<Rightarrow> []
           | Inr r \<Rightarrow> if resp_ok r then nonblank_lines B (resp_body r) else []))"

text \<open>The matching lines of the listed files, in file-listing-then-line order.\<close>

definition store_matches ::
  "builtins \<Rightarrow> store \<Rightarrow> string \<Rightarrow> string list option \<Rightarrow> jsval list \<Rightarrow> jsval list" where
  "store_matches B S ql req files =
     concat (map (\<lambda>f. lines_matches B ql req (file_lines B S f)) files)"

text \<open>A listed file on which nothing throws: its id can be read and converted, its
  content request resolves, and no line of it makes the loop body throw.\<close>

definition file_quiet :: "builtins \<Rightarrow> store \<Rightarrow> string \<Rightarrow> string list option \<Rightarrow> jsval \<Rightarrow> bool" where
  "file_quiet B S ql req file =
     (case and_then (get_prop file ''id'') (ToString B) of
        Inl e \<Rightarrow> False
      | Inr fid \<Rightarrow>
          (case file_content S fid of
             Inl e \<Rightarrow> False
           | Inr r \<Rightarrow> list_all (\<lambda>l. \<not> isl (scan_line B ql req l)) (file_lines B S file)))"

text \<open>A content request that resolves with a status outside the success range.\<close>

definition fetch_not_ok :: "builtins \<Rightarrow> store \<Rightarrow> jsval \<Rightarrow> bool" where
  "fetch_not_ok B S file =
     (case and_then (get_prop file ''id'') (ToString B) of
        Inl e \<Rightarrow> False
      | Inr fid \<Rightarrow>
          (case file_content S fid of
             Inl e \<Rightarrow> False
           | Inr r \<Rightarrow> \<not> resp_ok r))"

text \<open>The results of a search, without the log of the requests.\<close>

definition results_of :: "js_error + jsval list \<times> string list \<Rightarrow> js_error + jsval list" where
  "results_of x = (case x of Inl e \<Rightarrow> Inl e | Inr (results, fetched) \<Rightarrow> Inr results)"

section \<open>A runtime for the examples\<close>

text \<open>
  The examples need the runtime algorithms at a few arguments.  \<open>demo_parse\<close> knows
  the lines that the examples use and gives for each the value that \<^verbatim>\<open>JSON.parse\<close> gives;
  it rejects every other line, among them \<open>line_broken\<close>, which is not JSON.  Numbers in the
  examples are whole and not negative.  The case mapping and the white space are those of
  the code units below 256.
\<close>

definition line_inception :: string where
  \<open>line_inception = ''{"title":"Inception"}''\<close>

definition doc_inception :: jsval where
  "doc_inception = JObj [(''title'', JStr ''Inception'')]"

definition line_tags_a :: string where
  \<open>line_tags_a = ''{"text":"note","tags":["a"]}''\<close>

definition doc_tags_a :: jsval where
  "doc_tags_a = JObj [(''text'', JStr ''note''), (''tags'', JArr [JStr ''a''])]"

definition line_tags_abc :: string where
  \<open>line_tags_abc = ''{"text":"note","tags":["a","b","c"]}''\<close>

definition doc_tags_abc :: jsval where
  "doc_tags_abc =
     JObj [(''text'', JStr ''note''), (''tags'', JArr [JStr ''a'', JStr ''b'', JStr ''c''])]"

text \<open>A record with every searched field, and a record whose comment cannot be converted
  to a string.\<close>

definition line_full :: string where
  \<open>line_full = ''{"text":"Watched on a plane","title":"Inception","comment":"Dream HEIST","tags":["Favorite"],"kind":"note","type":"movie_seen"}''\<close>

definition doc_full :: jsval where
  "doc_full =
     JObj [(''text'', JStr ''Watched on a plane''), (''title'', JStr ''Inception''),
           (''comment'', JStr ''Dream HEIST''), (''tags'', JArr [JStr ''Favorite'']),
           (''kind'', JStr ''note''), (''type'', JStr ''movie_seen'')]"

definition line_unconvertible :: string where
  \<open>line_unconvertible = ''{"title":"x","comment":{"toString":0}}''\<close>

definition doc_unconvertible :: jsval where
  "doc_unconvertible =
     JObj [(''title'', JStr ''x''), (''comment'', JObj [(''toString'', JNum (Fin 0))])]"

definition line_broken :: string where
  \<open>line_broken = ''{"title":''\<close>

definition file_f1 :: jsval where
  "file_f1 = JObj [(''id'', JStr ''f1'')]"

definition file_f2 :: jsval where
  "file_f2 = JObj [(''id'', JStr ''f2'')]"

definition listing_f1_f2 :: string where
  \<open>listing_f1_f2 = ''{"data":[{"id":"f1"},{"id":"f2"}]}''\<close>

definition listing_f2 :: string where
  \<open>listing_f2 = ''{"data":[{"id":"f2"}]}''\<close>

definition attached :: string where
  \<open>attached = ''{"id":"vsf_1"}''\<close>

definition demo_parse :: "string \<Rightarrow> jsval option" where
  "demo_parse =
     map_of
       [(line_inception, doc_inception),
        (line_tags_a, doc_tags_a),
        (line_tags_abc, doc_tags_abc),
        (line_full, doc_full),
        (line_unconvertible, doc_unconvertible),
        (''null'', JNull),
        (listing_f1_f2, JObj [(''data'', JArr [file_f1, file_f2])]),
        (listing_f2, JObj [(''data'', JArr [file_f2])]),
        (attached, JObj [(''id'', JStr ''vsf_1'')])]"

function show_nat :: "nat \<Rightarrow> string" where
  "show_nat n =
     (if n < 10 then [''0123456789'' ! n]
      else show_nat (n div 10) @ [''0123456789'' ! (n mod 10)])"
  by pat_completeness auto
termination
  by (relation "measure id") auto

declare show_nat.simps [simp del]

fun read_nat :: "nat \<Rightarrow> string \<Rightarrow> nat option" where
  "read_nat acc [] = Some acc"
| "read_nat acc (c # cs) =
     (case map_of (zip ''0123456789'' [0, 1, 2, 3, 4, 5, 6, 7, 8, 9]) c of
        None \<Rightarrow> None
      | Some d \<Rightarrow> read_nat (10 * acc + d) cs)"

text \<open>Lower case of a code unit below 256: the letters A to Z and the capital letters of
  the range 0xC0 to 0xDE (0xD7 is the multiplication sign) have their small letter 32
  places further on.  White space below 256: tab, line feed, vertical tab, form feed,
  carriage return, space and the no-break space.\<close>

definition lower_char :: "char \<Rightarrow> char" where
  "lower_char c =
     (if (65 \<le> (of_char c :: nat) \<and> (of_char c :: nat) \<le> 90) \<or>
         (192 \<le> (of_char c :: nat) \<and> (of_char c :: nat) \<le> 222 \<and> (of_char c :: nat) \<noteq> 215)
      then char_of ((of_char c :: nat) + 32) else c)"

definition is_space :: "char \<Rightarrow> bool" where
  "is_space c =
     (c \<in> set [CHR 0x09, CHR 0x0A, CHR 0x0B, CHR 0x0C, CHR 0x0D, CHR 0x20, CHR 0xA0])"

definition demo_runtime :: builtins where
  "demo_runtime =
     \<lparr>JSON_parse = demo_parse,
      Number_toString = (\<lambda>r. show_nat (nat \<lfloor>r\<rfloor>)),
      StringToNumber = (\<lambda>s. case read_nat 0 s of None \<Rightarrow> NaN | Some n \<Rightarrow> Fin (of_nat n)),
      String_toLowerCase = map lower_char,
      WhiteSpace = is_space\<rparr>"

definition demo_env :: env where
  "demo_env =
     \<lparr>OPENAI_API_KEY = Some ''sk-demo'', VECTOR_STORE_ID = Some ''vs_demo'',
      TRAKT_CLIENT_ID = Some ''client'', TRAKT_ACCESS_TOKEN = Some ''token''\<rparr>"

definition ok_response :: "string \<Rightarrow> response" where
  "ok_response b = \<lparr>resp_ok = True, resp_status = 200, resp_body = b\<rparr>"

definition failed_response :: "nat \<Rightarrow> string \<Rightarrow> response" where
  "failed_response n b = \<lparr>resp_ok = False, resp_status = n, resp_body = b\<rparr>"

definition result_inception :: jsval where
  "result_inception = make_result demo_runtime doc_inception []"

text \<open>A store of two files, each of fifteen lines that hold the same record.\<close>

definition fifteen_lines :: string where
  "fifteen_lines = concat (replicate 15 (line_inception @ [CHR 0x0A]))"

definition store_thirty :: store where
  "store_thirty =
     \<lparr>list_files = Inr (ok_response listing_f1_f2),
      file_content = (\<lambda>fid. Inr (ok_response fifteen_lines))\<rparr>"

text \<open>Two stores of two files, the second file holding one record: in the first store the
  content request for \<^verbatim>\<open>f1\<close> resolves with status 503, in the second it rejects.\<close>

definition store_failing :: store where
  "store_failing =
     \<lparr>list_files = Inr (ok_response listing_f1_f2),
      file_content =
        (\<lambda>fid. if fid = ''f1'' then Inr (failed_response 503 ''unavailable'')
               else Inr (ok_response (line_inception @ [CHR 0x0A])))\<rparr>"

text \<open>A store whose first file holds a record that cannot be searched: the conversion of
  its comment throws.\<close>

definition store_unconvertible :: store where
  "store_unconvertible =
     \<lparr>list_files = Inr (ok_response listing_f1_f2),
      file_content =
        (\<lambda>fid. if fid = ''f1'' then Inr (ok_response (line_unconvertible @ [CHR 0x0A]))
               else Inr (ok_response (line_inception @ [CHR 0x0A])))\<rparr>"

definition store_rejecting :: store where
  "store_rejecting =
     \<lparr>list_files = Inr (ok_response listing_f1_f2),
      file_content =
        (\<lambda>fid. if fid = ''f1'' then Inl (FetchError ''request failed'')
               else Inr (ok_response (line_inception @ [CHR 0x0A])))\<rparr>"

text \<open>A clock reading, a caller's movie, an uploader's outside in which every step
  succeeds and the unlink is still in flight when the call settles, an empty file system, a
  request body, and a request during which the tracking service answers with status 401.\<close>

definition demo_now :: string where
  "demo_now = ''2024-05-01T10:00:00.000Z''"

definition movie_inception :: "(string \<times> jsval) list" where
  "movie_inception =
     [(''title'', JStr ''Inception''), (''year'', JNum (Fin 2010)),
      (''comment'', JStr (''two'' @ [CHR 0x0A] @ ''lines''))]"

definition upload_ok :: upload_io where
  "upload_ok =
     \<lparr>tmpPath = ''/tmp/yen-movie-1714557600000-k3x9.txt'', writeFile = None,
      files_create = Inr ''file_1'', attach = Inr (ok_response attached), unlink = None,
      unlinked_at_return = False\<rparr>"

definition no_files :: filesystem where
  "no_files = (\<lambda>p. None)"

definition body_inception :: jsval where
  "body_inception = JObj [(''title'', JStr ''Inception''), (''imdb'', JStr ''tt1375666'')]"

definition trakt_down :: mark_seen_io where
  "trakt_down =
     \<lparr>clock = demo_now, uploader = upload_ok,
      trakt_post = Inr (failed_response 401 ''unauthorized'')\<rparr>"

section \<open>Properties\<close>

lemma str_includes_iff_sublist: "str_includes h q \<longleftrightarrow> sublist q h"
  by (induction h) (auto simp: sublist_Cons_right)

subsection \<open>The loop body\<close>

lemma and_then_simps [simp]:
  "and_then (Inl e) f = Inl e" "and_then (Inr v) f = f v"
  by (simp_all add: and_then_def)

lemma scan_line_parsed:
  assumes "JSON_parse B line = Some doc" and "get_prop doc ''tags'' = Inr tv"
  shows "scan_line B ql req line =
           (if (case req of None \<Rightarrow> False | Some rts \<Rightarrow> \<not> hasAll rts (tags_array tv)) then Inr None
            else (case haystack B doc (tags_array tv) of
                    Inl e \<Rightarrow> Inl e
                  | Inr h \<Rightarrow>
                      if \<not> str_includes h ql then Inr None
                      else Inr (Some (make_result B doc (tags_array tv)))))"
  using assms by (simp add: scan_line_def Let_def)

lemma or_empty_cases:
  "or_empty B doc k = (if truthy (rd doc k) then ToString B (rd doc k) else Inr [])"
  by (simp add: or_empty_def js_or_def)

lemma haystack_Inr:
  assumes "or_empty B doc ''text'' = Inr t" and "or_empty B doc ''title'' = Inr ti"
    and "or_empty B doc ''comment'' = Inr c" and "or_empty B doc ''kind'' = Inr kd"
    and "or_empty B doc ''type'' = Inr ty"
  shows "haystack B doc tags =
           Inr (String_toLowerCase B
                  (t @ '' '' @ ti @ '' '' @ c @ '' '' @ stringify B (JArr tags) @ '' '' @
                   kd @ '' '' @ ty))"
  using assms by (simp add: haystack_def)

lemma haystack_Inl:
  assumes "k \<in> set [''text'', ''title'', ''comment'', ''kind'', ''type'']"
    and "isl (or_empty B doc k)"
  shows "isl (haystack B doc tags)"
  using assms
  by (cases "or_empty B doc ''text''"; cases "or_empty B doc ''title''";
      cases "or_empty B doc ''comment''"; cases "or_empty B doc ''kind''";
      cases "or_empty B doc ''type''")
     (auto simp: haystack_def)

text \<open>
  Claim C1, as amended.  Take a scanned line that parses to a value other than \<^verbatim>\<open>null\<close>
  and that passes the tag filter (or meets no tag filter).  Each of its fields \<^verbatim>\<open>text\<close>,
  \<^verbatim>\<open>title\<close>, \<^verbatim>\<open>comment\<close>, \<^verbatim>\<open>kind\<close> and \<^verbatim>\<open>type\<close> contributes its conversion to a
  string, and the empty string when it is missing or otherwise falsy; a string field
  contributes itself.  When the five conversions succeed, the line is kept as a match if and
  only if the lower-cased query occurs as a contiguous run in the lower-cased haystack: the
  five contributions and the JSON text of the tags array, joined by single spaces in the
  order \<^verbatim>\<open>text\<close>, \<^verbatim>\<open>title\<close>, \<^verbatim>\<open>comment\<close>, tags, \<^verbatim>\<open>kind\<close>, \<^verbatim>\<open>type\<close>.  When the
  conversion of one of the five fields throws, the loop body throws.
\<close>

theorem substring_match:
  assumes "JSON_parse B line = Some doc"
    and "get_prop doc ''tags'' = Inr tv"
    and "case requiredTags of None \<Rightarrow> True
         | Some rts \<Rightarrow> \<forall>t \<in> set rts. JStr t \<in> set (tags_array tv)"
  shows
    "(\<forall>t ti c kd ty.
        or_empty B doc ''text'' = Inr t \<and> or_empty B doc ''title'' = Inr ti
        \<and> or_empty B doc ''comment'' = Inr c \<and> or_empty B doc ''kind'' = Inr kd
        \<and> or_empty B doc ''type'' = Inr ty \<longrightarrow>
        scan_line B (String_toLowerCase B query) requiredTags line =
          (if sublist (String_toLowerCase B query)
                (String_toLowerCase B
                   (t @ '' '' @ ti @ '' '' @ c @ '' '' @ stringify B (JArr (tags_array tv)) @
                    '' '' @ kd @ '' '' @ ty))
           then Inr (Some (make_result B doc (tags_array tv)))
           else Inr None))
     \<and> (\<forall>k. or_empty B doc k =
              (if truthy (rd doc k) then ToString B (rd doc k) else Inr []))
     \<and> (\<forall>k. rd doc k = JUndefined \<longrightarrow> or_empty B doc k = Inr [])
     \<and> (\<forall>k s. rd doc k = JStr s \<longrightarrow> or_empty B doc k = Inr s)
     \<and> (\<forall>k \<in> set [''text'', ''title'', ''comment'', ''kind'', ''type''].
          isl (or_empty B doc k) \<longrightarrow>
          isl (scan_line B (String_toLowerCase B query) requiredTags line))"
proof -
  from assms(3) have pass: "\<not> (case requiredTags of None \<Rightarrow> False
                          | Some rts \<Rightarrow> \<not> hasAll rts (tags_array tv))"
    by (cases requiredTags) (simp_all add: hasAll_def list_all_iff)
  have main: "scan_line B (String_toLowerCase B query) requiredTags line =
          (if sublist (String_toLowerCase B query)
                (String_toLowerCase B
                   (t @ '' '' @ ti @ '' '' @ c @ '' '' @ stringify B (JArr (tags_array tv)) @
                    '' '' @ kd @ '' '' @ ty))
           then Inr (Some (make_result B doc (tags_array tv)))
           else Inr None)"
    if "or_empty B doc ''text'' = Inr t \<and> or_empty B doc ''title'' = Inr ti
        \<and> or_empty B doc ''comment'' = Inr c \<and> or_empty B doc ''kind'' = Inr kd
        \<and> or_empty B doc ''type'' = Inr ty" for t ti c kd ty
    using that pass
    by (simp add: scan_line_parsed[OF assms(1,2)] haystack_Inr str_includes_iff_sublist)
  have thrown: "isl (scan_line B (String_toLowerCase B query) requiredTags line)"
    if "k \<in> set [''text'', ''title'', ''comment'', ''kind'', ''type'']"
      and "isl (or_empty B doc k)" for k
  proof -
    from haystack_Inl[OF that, of "tags_array tv"] obtain e where "haystack B doc (tags_array tv) = Inl e"
      by (cases "haystack B doc (tags_array tv)") auto
    with pass show ?thesis by (simp add: scan_line_parsed[OF assms(1,2)])
  qed
  have fields: "or_empty B doc k = (if truthy (rd doc k) then ToString B (rd doc k) else Inr [])"
    "rd doc k = JUndefined \<longrightarrow> or_empty B doc k = Inr []"
    "rd doc k = JStr s \<longrightarrow> or_empty B doc k = Inr s" for k s
    by (auto simp: or_empty_cases)
  show ?thesis
  proof (intro conjI allI ballI impI)
    fix t ti c kd ty
    assume "or_empty B doc ''text'' = Inr t \<and> or_empty B doc ''title'' = Inr ti
        \<and> or_empty B doc ''comment'' = Inr c \<and> or_empty B doc ''kind'' = Inr kd
        \<and> or_empty B doc ''type'' = Inr ty"
    then show "scan_line B (String_toLowerCase B query) requiredTags line =
          (if sublist (String_toLowerCase B query)
                (String_toLowerCase B
                   (t @ '' '' @ ti @ '' '' @ c @ '' '' @ stringify B (JArr (tags_array tv)) @
                    '' '' @ kd @ '' '' @ ty))
           then Inr (Some (make_result B doc (tags_array tv)))
           else Inr None)"
      by (rule main)
  next
    fix k
    show "or_empty B doc k = (if truthy (rd doc k) then ToString B (rd doc k) else Inr [])"
      by (rule fields(1))
  next
    fix k
    assume "rd doc k = JUndefined"
    then show "or_empty B doc k = Inr []" using fields(2) by blast
  next
    fix k s
    assume "rd doc k = JStr s"
    then show "or_empty B doc k = Inr s" using fields(3) by blast
  next
    fix k
    assume "k \<in> set [''text'', ''title'', ''comment'', ''kind'', ''type'']"
      and "isl (or_empty B doc k)"
    then show "isl (scan_line B (String_toLowerCase B query) requiredTags line)"
      by (rule thrown)
  qed
qed

text \<open>The example of the claim: the title \<^verbatim>\<open>Inception\<close> matches \<^verbatim>\<open>incep\<close> and
  \<^verbatim>\<open>INCEP\<close> and does not match \<^verbatim>\<open>incepti0n\<close>.  A record with every field is found
  through each of them, in either case of the letters, and through a run that spans three
  fields; a record whose comment is the object \<^verbatim>\<open>{"toString":0}\<close> makes the loop body
  throw; the capital E with acute accent is lower-cased to the small one.\<close>

theorem substring_match_witness:
  "scan_line demo_runtime (String_toLowerCase demo_runtime ''incep'') None line_inception =
     Inr (Some (make_result demo_runtime doc_inception []))
   \<and> scan_line demo_runtime (String_toLowerCase demo_runtime ''INCEP'') None line_inception =
     Inr (Some (make_result demo_runtime doc_inception []))
   \<and> scan_line demo_runtime (String_toLowerCase demo_runtime ''incepti0n'') None line_inception
       = Inr None
   \<and> scan_line demo_runtime (String_toLowerCase demo_runtime ''PLANE'') None line_full =
     Inr (Some (make_result demo_runtime doc_full [JStr ''Favorite'']))
   \<and> scan_line demo_runtime (String_toLowerCase demo_runtime ''heist'') None line_full =
     Inr (Some (make_result demo_runtime doc_full [JStr ''Favorite'']))
   \<and> scan_line demo_runtime (String_toLowerCase demo_runtime ''favorite'') None line_full =
     Inr (Some (make_result demo_runtime doc_full [JStr ''Favorite'']))
   \<and> scan_line demo_runtime (String_toLowerCase demo_runtime ''Note'') None line_full =
     Inr (Some (make_result demo_runtime doc_full [JStr ''Favorite'']))
   \<and> scan_line demo_runtime (String_toLowerCase demo_runtime ''MOVIE_seen'') None line_full =
     Inr (Some (make_result demo_runtime doc_full [JStr ''Favorite'']))
   \<and> scan_line demo_runtime (String_toLowerCase demo_runtime ''plane inception dream'') None
       line_full = Inr (Some (make_result demo_runtime doc_full [JStr ''Favorite'']))
   \<and> scan_line demo_runtime (String_toLowerCase demo_runtime ''zzz'') None line_full = Inr None
   \<and> isl (scan_line demo_runtime (String_toLowerCase demo_runtime ''x'') None line_unconvertible)
   \<and> String_toLowerCase demo_runtime [CHR 0xC9] = [CHR 0xE9]"
proof -
  have p: "JSON_parse demo_runtime line_inception = Some doc_inception"
    by code_simp
  have t: "get_prop doc_inception ''tags'' = Inr JUndefined"
    by code_simp
  have f: "case None :: string list option of None \<Rightarrow> True
           | Some rts \<Rightarrow> \<forall>t \<in> set rts. JStr t \<in> set (tags_array JUndefined)"
    by simp
  have fields: "or_empty demo_runtime doc_inception ''text'' = Inr []
     \<and> or_empty demo_runtime doc_inception ''title'' = Inr ''Inception''
     \<and> or_empty demo_runtime doc_inception ''comment'' = Inr []
     \<and> or_empty demo_runtime doc_inception ''kind'' = Inr []
     \<and> or_empty demo_runtime doc_inception ''type'' = Inr []"
    by code_simp
  have tg: "tags_array JUndefined = []" by code_simp
  have yes: "str_includes
       (String_toLowerCase demo_runtime
          ([] @ '' '' @ ''Inception'' @ '' '' @ [] @ '' '' @ stringify demo_runtime (JArr []) @
           '' '' @ [] @ '' '' @ []))
       (String_toLowerCase demo_runtime ''INCEP'')"
    by code_simp
  have no: "\<not> str_includes
       (String_toLowerCase demo_runtime
          ([] @ '' '' @ ''Inception'' @ '' '' @ [] @ '' '' @ stringify demo_runtime (JArr []) @
           '' '' @ [] @ '' '' @ []))
       (String_toLowerCase demo_runtime ''incepti0n'')"
    by code_simp
  from substring_match[OF p t f, of "''INCEP''"] fields
  have "scan_line demo_runtime (String_toLowerCase demo_runtime ''INCEP'') None line_inception =
     Inr (Some (make_result demo_runtime doc_inception []))"
    using yes unfolding str_includes_iff_sublist tg by presburger
  moreover
  from substring_match[OF p t f, of "''incepti0n''"] fields
  have "scan_line demo_runtime (String_toLowerCase demo_runtime ''incepti0n'') None
          line_inception = Inr None"
    using no unfolding str_includes_iff_sublist tg by presburger
  moreover
  have "scan_line demo_runtime (String_toLowerCase demo_runtime ''incep'') None line_inception =
     Inr (Some (make_result demo_runtime doc_inception []))"
    by code_simp
  moreover
  have "scan_line demo_runtime (String_toLowerCase demo_runtime ''PLANE'') None line_full =
     Inr (Some (make_result demo_runtime doc_full [JStr ''Favorite'']))"
    "scan_line demo_runtime (String_toLowerCase demo_runtime ''heist'') None line_full =
     Inr (Some (make_result demo_runtime doc_full [JStr ''Favorite'']))"
    "scan_line demo_runtime (String_toLowerCase demo_runtime ''favorite'') None line_full =
     Inr (Some (make_result demo_runtime doc_full [JStr ''Favorite'']))"
    "scan_line demo_runtime (String_toLowerCase demo_runtime ''Note'') None line_full =
     Inr (Some (make_result demo_runtime doc_full [JStr ''Favorite'']))"
    "scan_line demo_runtime (String_toLowerCase demo_runtime ''MOVIE_seen'') None line_full =
     Inr (Some (make_result demo_runtime doc_full [JStr ''Favorite'']))"
    "scan_line demo_runtime (String_toLowerCase demo_runtime ''plane inception dream'') None
       line_full = Inr (Some (make_result demo_runtime doc_full [JStr ''Favorite'']))"
    "scan_line demo_runtime (String_toLowerCase demo_runtime ''zzz'') None line_full = Inr None"
    "isl (scan_line demo_runtime (String_toLowerCase demo_runtime ''x'') None line_unconvertible)"
    "String_toLowerCase demo_runtime [CHR 0xC9] = [CHR 0xE9]"
    by code_simp+
  ultimately show ?thesis by blast
qed

text \<open>Claim C1 as it was stated fails where a tag filter is in force: the record below
  contains the query and is not kept, because it lacks the requested tag.\<close>

theorem substring_match_counterexample:
  "scan_line demo_runtime (String_toLowerCase demo_runtime ''incep'')
     (required_tags (Some [''a''])) line_inception = Inr None
   \<and> JSON_parse demo_runtime line_inception = Some doc_inception
   \<and> haystack demo_runtime doc_inception (tags_array (rd doc_inception ''tags''))
       = Inr '' inception  []  ''
   \<and> String_toLowerCase demo_runtime ''incep'' = ''incep''
   \<and> sublist ''incep'' '' inception  []  ''"
proof -
  have "str_includes '' inception  []  '' ''incep''" by code_simp
  then have "sublist ''incep'' '' inception  []  ''"
    unfolding str_includes_iff_sublist .
  moreover have "scan_line demo_runtime (String_toLowerCase demo_runtime ''incep'')
     (required_tags (Some [''a''])) line_inception = Inr None"
    "JSON_parse demo_runtime line_inception = Some doc_inception"
    "haystack demo_runtime doc_inception (tags_array (rd doc_inception ''tags''))
       = Inr '' inception  []  ''"
    "String_toLowerCase demo_runtime ''incep'' = ''incep''"
    by code_simp+
  ultimately show ?thesis by blast
qed

text \<open>
  Claim C2.  With a non-empty list of requested tags, a record passes the tag filter if and
  only if every requested tag is an element of its tags array: when one is missing the
  line is dropped whatever the query, and otherwise the line fares as it does without a
  filter.
\<close>

theorem tag_filter_conjunctive:
  assumes "JSON_parse B line = Some doc"
    and "get_prop doc ''tags'' = Inr tv"
    and "filterTags \<noteq> []"
  shows "scan_line B ql (required_tags (Some filterTags)) line =
           (if \<forall>t \<in> set filterTags. JStr t \<in> set (tags_array tv)
            then scan_line B ql None line
            else Inr None)"
  using assms(3)
  by (simp add: scan_line_parsed[OF assms(1,2)] required_tags_def hasAll_def list_all_iff)

text \<open>The examples of the claim: tags \<^verbatim>\<open>["a"]\<close> do not pass the filter \<^verbatim>\<open>["a","b"]\<close>, tags
  \<^verbatim>\<open>["a","b","c"]\<close> do.\<close>

theorem tag_filter_conjunctive_witness:
  "scan_line demo_runtime ''note'' (required_tags (Some [''a'', ''b''])) line_tags_a = Inr None
   \<and> scan_line demo_runtime ''note'' (required_tags (Some [''a'', ''b''])) line_tags_abc =
       Inr (Some (make_result demo_runtime doc_tags_abc [JStr ''a'', JStr ''b'', JStr ''c'']))"
proof -
  have pa: "JSON_parse demo_runtime line_tags_a = Some doc_tags_a"
    by code_simp
  have ta: "get_prop doc_tags_a ''tags'' = Inr (JArr [JStr ''a''])"
    by code_simp
  have pc: "JSON_parse demo_runtime line_tags_abc = Some doc_tags_abc"
    by code_simp
  have tc: "get_prop doc_tags_abc ''tags'' = Inr (JArr [JStr ''a'', JStr ''b'', JStr ''c''])"
    by code_simp
  have ne: "[''a'', ''b''] \<noteq> ([] :: string list)" by simp
  have fa: "\<not> (\<forall>t \<in> set [''a'', ''b'']. JStr t \<in> set (tags_array (JArr [JStr ''a''])))"
    by code_simp
  have fc: "\<forall>t \<in> set [''a'', ''b''].
              JStr t \<in> set (tags_array (JArr [JStr ''a'', JStr ''b'', JStr ''c'']))"
    by code_simp
  have plain: "scan_line demo_runtime ''note'' None line_tags_abc =
       Inr (Some (make_result demo_runtime doc_tags_abc [JStr ''a'', JStr ''b'', JStr ''c'']))"
    by code_simp
  show ?thesis
    using tag_filter_conjunctive[OF pa ta ne, of "''note''"]
      tag_filter_conjunctive[OF pc tc ne, of "''note''"] fa fc plain
    by presburger
qed

subsection \<open>The two loops\<close>

lemma scan_lines_exact:
  "scan_lines B ql m req lines rs = Inr rs' \<Longrightarrow>
   rs' = rs @ take (nat (m - int (length rs))) (lines_matches B ql req lines)"
proof (induction lines arbitrary: rs)
  case Nil
  then show ?case by (simp add: lines_matches_def)
next
  case (Cons l ls)
  show ?case
  proof (cases "int (length rs) \<ge> m")
    case True
    with Cons.prems show ?thesis by simp
  next
    case False
    note lt = this
    show ?thesis
    proof (cases "scan_line B ql req l")
      case (Inl e)
      with Cons.prems lt show ?thesis by simp
    next
      case (Inr o1)
      show ?thesis
      proof (cases o1)
        case None
        with Inr Cons.prems lt have "scan_lines B ql m req ls rs = Inr rs'" by simp
        from Cons.IH[OF this] None Inr show ?thesis
          by (simp add: lines_matches_def line_matches_def)
      next
        case (Some r)
        with Inr Cons.prems lt have "scan_lines B ql m req ls (rs @ [r]) = Inr rs'" by simp
        from Cons.IH[OF this] have "rs' = (rs @ [r]) @ take (nat (m - int (length (rs @ [r])))) (lines_matches B ql req ls)" .
        moreover from lt have "nat (m - int (length rs)) = Suc (nat (m - int (length (rs @ [r]))))" by simp
        ultimately show ?thesis using Some Inr
          by (simp add: lines_matches_def line_matches_def)
      qed
    qed
  qed
qed

lemma scan_lines_total:
  "\<forall>l \<in> set lines. \<not> isl (scan_line B ql req l) \<Longrightarrow> \<exists>rs'. scan_lines B ql m req lines rs = Inr rs'"
proof (induction lines arbitrary: rs)
  case Nil
  then show ?case by simp
next
  case (Cons l ls)
  then show ?case
    by (cases "scan_line B ql req l") (auto split: option.splits)
qed

lemma scan_lines_stop:
  "scan_lines B ql m req pre rs = Inr rs1 \<Longrightarrow> int (length rs1) \<ge> m \<Longrightarrow>
   scan_lines B ql m req (pre @ suf) rs = Inr rs1"
proof (induction pre arbitrary: rs)
  case Nil
  then show ?case by (cases suf) auto
next
  case (Cons l ls)
  then show ?case
    by (cases "scan_line B ql req l") (auto split: option.splits if_splits)
qed

lemma scan_lines_skip_unparsable:
  "JSON_parse B bad = None \<Longrightarrow>
   scan_lines B ql m req (pre @ bad # post) rs = scan_lines B ql m req (pre @ post) rs"
proof (induction pre arbitrary: rs)
  case Nil
  then show ?case by (cases post) (auto simp: scan_line_def)
next
  case (Cons l ls)
  then show ?case
    by (cases "scan_line B ql req l") (auto split: option.splits if_splits)
qed

lemma nonblank_lines_Nil [simp]: "nonblank_lines B [] = []"
  by (simp add: nonblank_lines_def trim_def)

lemma take_append_take:
  "rs @ take n (A @ C) = (rs @ take n A) @ take (n - length (take n A)) C"
  by (cases "length A \<le> n") (auto simp: min_def)

lemma scan_files_exact:
  "scan_files B S ql m req files (rs, fe) = Inr (rs', fe') \<Longrightarrow>
   rs' = rs @ take (nat (m - int (length rs))) (store_matches B S ql req files)"
proof (induction files arbitrary: rs fe)
  case Nil
  then show ?case by (simp add: store_matches_def)
next
  case (Cons f fs)
  show ?case
  proof (cases "int (length rs) \<ge> m")
    case True
    with Cons.prems show ?thesis by simp
  next
    case lt: False
    from Cons.prems lt obtain fid where fid: "and_then (get_prop f ''id'') (ToString B) = Inr fid"
      by (cases "and_then (get_prop f ''id'') (ToString B)") auto
    from Cons.prems lt fid obtain r where r: "file_content S fid = Inr r"
      by (cases "file_content S fid") auto
    have sm: "store_matches B S ql req (f # fs) =
                lines_matches B ql req (file_lines B S f) @ store_matches B S ql req fs"
      by (simp add: store_matches_def)
    show ?thesis
    proof (cases "resp_ok r \<and> resp_body r \<noteq> []")
      case False
      with Cons.prems lt fid r
      have "scan_files B S ql m req fs (rs, fe @ [fid]) = Inr (rs', fe')"
        by (auto split: if_splits)
      from Cons.IH[OF this] have "rs' = rs @ take (nat (m - int (length rs))) (store_matches B S ql req fs)" .
      moreover from False fid r have "file_lines B S f = []"
        by (auto simp: file_lines_def)
      ultimately show ?thesis by (simp add: sm lines_matches_def)
    next
      case True
      with Cons.prems lt fid r obtain rs1 where
        s1: "scan_lines B ql m req (nonblank_lines B (resp_body r)) rs = Inr rs1" and
        s2: "scan_files B S ql m req fs (rs1, fe @ [fid]) = Inr (rs', fe')"
        by (cases "scan_lines B ql m req (nonblank_lines B (resp_body r)) rs") auto
      from True fid r have fl: "file_lines B S f = nonblank_lines B (resp_body r)"
        by (simp add: file_lines_def)
      let ?n = "nat (m - int (length rs))"
      let ?A = "lines_matches B ql req (file_lines B S f)"
      from scan_lines_exact[OF s1] fl have rs1: "rs1 = rs @ take ?n ?A" by simp
      from Cons.IH[OF s2]
      have "rs' = rs1 @ take (nat (m - int (length rs1))) (store_matches B S ql req fs)" .
      moreover have "nat (m - int (length rs1)) = ?n - length (take ?n ?A)"
        using rs1 by auto
      ultimately show ?thesis
        using rs1 by (simp only: sm take_append_take[of rs ?n ?A])
    qed
  qed
qed

lemma scan_files_total:
  "list_all (file_quiet B S ql req) files \<Longrightarrow> \<exists>st'. scan_files B S ql m req files st = Inr st'"
proof (induction files arbitrary: st)
  case Nil
  then show ?case by simp
next
  case (Cons f fs)
  obtain rs fe where st: "st = (rs, fe)" by (cases st)
  from Cons.prems have q: "file_quiet B S ql req f" and rest: "list_all (file_quiet B S ql req) fs"
    by simp_all
  from q obtain fid where fid: "and_then (get_prop f ''id'') (ToString B) = Inr fid"
    by (cases "and_then (get_prop f ''id'') (ToString B)") (auto simp: file_quiet_def)
  from q fid obtain r where r: "file_content S fid = Inr r"
    by (cases "file_content S fid") (auto simp: file_quiet_def)
  show ?case
  proof (cases "resp_ok r \<and> resp_body r \<noteq> []")
    case False
    with fid r st Cons.IH[OF rest] show ?thesis by auto
  next
    case True
    with q fid r have "\<forall>l \<in> set (nonblank_lines B (resp_body r)). \<not> isl (scan_line B ql req l)"
      by (simp add: file_quiet_def file_lines_def list_all_iff)
    from scan_lines_total[OF this] obtain rs1 where
      "scan_lines B ql m req (nonblank_lines B (resp_body r)) rs = Inr rs1" by blast
    with True fid r st Cons.IH[OF rest] show ?thesis by auto
  qed
qed

lemma scan_files_stop:
  "scan_files B S ql m req pre st = Inr (rs1, fe1) \<Longrightarrow> int (length rs1) \<ge> m \<Longrightarrow>
   scan_files B S ql m req (pre @ suf) st = Inr (rs1, fe1)"
proof (induction pre arbitrary: st)
  case Nil
  then show ?case by (cases suf; cases st) auto
next
  case (Cons f fs)
  obtain rs fe where st: "st = (rs, fe)" by (cases st)
  show ?case
  proof (cases "int (length rs) \<ge> m")
    case True
    with Cons.prems st show ?thesis by simp
  next
    case lt: False
    from Cons.prems lt st obtain fid where fid: "and_then (get_prop f ''id'') (ToString B) = Inr fid"
      by (cases "and_then (get_prop f ''id'') (ToString B)") auto
    from Cons.prems lt fid st obtain r where r: "file_content S fid = Inr r"
      by (cases "file_content S fid") auto
    show ?thesis
    proof (cases "resp_ok r \<and> resp_body r \<noteq> []")
      case False
      with Cons.prems lt fid r st
      have "scan_files B S ql m req fs (rs, fe @ [fid]) = Inr (rs1, fe1)"
        by (auto split: if_splits)
      from Cons.IH[OF this Cons.prems(2)] False lt fid r st show ?thesis by auto
    next
      case True
      with Cons.prems lt fid r st obtain rs2 where
        s1: "scan_lines B ql m req (nonblank_lines B (resp_body r)) rs = Inr rs2" and
        s2: "scan_files B S ql m req fs (rs2, fe @ [fid]) = Inr (rs1, fe1)"
        by (cases "scan_lines B ql m req (nonblank_lines B (resp_body r)) rs") auto
      from Cons.IH[OF s2 Cons.prems(2)] True lt fid r st s1 show ?thesis by auto
    qed
  qed
qed

lemma line_matches_score:
  "r \<in> set (line_matches B ql req l) \<Longrightarrow> rd r ''score'' = JNum (Fin 1)"
  by (auto simp: line_matches_def scan_line_def make_result_def rd_def Let_def
      split: sum.splits option.splits if_splits)

lemma store_matches_score:
  "r \<in> set (store_matches B S ql req files) \<Longrightarrow> rd r ''score'' = JNum (Fin 1)"
  by (auto simp: store_matches_def lines_matches_def dest: line_matches_score)

lemma slice0_take: "0 \<le> m \<Longrightarrow> slice0 (take (nat m) xs) m = take (nat m) xs"
  by (simp add: slice0_def)

lemma search_unfold:
  assumes "is_set (OPENAI_API_KEY E)" and "is_set (VECTOR_STORE_ID E)"
    and "listed_files B S = Inr files"
  shows "naiveVectorStoreSearch B E S query topK filterTags =
           (case scan_files B S (String_toLowerCase B query) (max_results topK) (required_tags filterTags)
                   files ([], []) of
              Inl e \<Rightarrow> Inl e
            | Inr (results, fetched) \<Rightarrow> Inr (slice0 results (max_results topK), fetched))"
  using assms by (simp add: naiveVectorStoreSearch_def)

lemma results_of_simps [simp]:
  "results_of (Inl e) = Inl e" "results_of (Inr (rs, fe)) = Inr rs"
  by (simp_all add: results_of_def)

lemma scan_files_log:
  "results_of (scan_files B S ql m req fs (rs, fe)) =
   results_of (scan_files B S ql m req fs (rs, fe'))"
proof (induction fs arbitrary: rs fe fe')
  case Nil
  then show ?case by simp
next
  case (Cons f fs)
  show ?case
  proof (cases "int (length rs) \<ge> m")
    case True
    then show ?thesis by simp
  next
    case lt: False
    show ?thesis
    proof (cases "and_then (get_prop f ''id'') (ToString B)")
      case (Inl e)
      with lt show ?thesis by simp
    next
      case fid: (Inr fid)
      show ?thesis
      proof (cases "file_content S fid")
        case (Inl e)
        with lt fid show ?thesis by simp
      next
        case r: (Inr r)
        note ih = Cons.IH[of _ "fe @ [fid]" "fe' @ [fid]"]
        show ?thesis
        proof (cases "scan_lines B ql m req (nonblank_lines B (resp_body r)) rs")
          case (Inl e)
          with lt fid r ih show ?thesis by simp
        next
          case (Inr rs1)
          with lt fid r ih show ?thesis by simp
        qed
      qed
    qed
  qed
qed

lemma scan_files_full:
  "int (length rs) \<ge> m \<Longrightarrow> scan_files B S ql m req fs (rs, fe) = Inr (rs, fe)"
  by (cases fs) simp_all

lemma scan_files_skip:
  assumes "fetch_not_ok B S f"
  shows "results_of (scan_files B S ql m req (pre @ f # post) st) =
         results_of (scan_files B S ql m req (pre @ post) st)"
proof (induction pre arbitrary: st)
  case Nil
  obtain rs fe where st: "st = (rs, fe)" by (cases st)
  show ?case
  proof (cases "int (length rs) \<ge> m")
    case True
    then show ?thesis by (simp add: st scan_files_full)
  next
    case False
    from assms obtain fid r where "and_then (get_prop f ''id'') (ToString B) = Inr fid"
      "file_content S fid = Inr r" "\<not> resp_ok r"
      by (auto simp: fetch_not_ok_def split: sum.splits)
    with False show ?thesis
      using scan_files_log[of B S ql m req post rs "fe @ [fid]" fe]
      by (simp add: st)
  qed
next
  case (Cons p ps)
  obtain rs fe where st: "st = (rs, fe)" by (cases st)
  show ?case
    by (auto simp: st Cons.IH split: sum.splits)
qed

subsection \<open>The search\<close>

lemma search_exact:
  assumes cfg: "is_set (OPENAI_API_KEY E)" "is_set (VECTOR_STORE_ID E)"
    and lst: "listed_files B S = Inr files"
    and k: "1 \<le> max_results topK"
    and res: "naiveVectorStoreSearch B E S query topK filterTags = Inr (rs, fe)"
  shows "rs = take (nat (max_results topK))
                (store_matches B S (String_toLowerCase B query) (required_tags filterTags) files)"
proof -
  let ?m = "max_results topK"
  from res obtain rs0 where
    sc: "scan_files B S (String_toLowerCase B query) ?m (required_tags filterTags) files ([], []) = Inr (rs0, fe)"
    and rs: "rs = slice0 rs0 ?m"
    by (auto simp: search_unfold[OF cfg lst] split: sum.splits)
  from scan_files_exact[OF sc] k
  have "rs0 = take (nat ?m) (store_matches B S (String_toLowerCase B query) (required_tags filterTags) files)"
    by simp
  with rs k show ?thesis by (simp add: slice0_take)
qed

lemma search_returns:
  assumes cfg: "is_set (OPENAI_API_KEY E)" "is_set (VECTOR_STORE_ID E)"
    and lst: "listed_files B S = Inr files"
    and k: "1 \<le> max_results topK"
    and q: "list_all (file_quiet B S (String_toLowerCase B query) (required_tags filterTags)) files"
  shows "\<exists>fe. naiveVectorStoreSearch B E S query topK filterTags =
           Inr (take (nat (max_results topK))
                  (store_matches B S (String_toLowerCase B query) (required_tags filterTags) files), fe)"
proof -
  from scan_files_total[OF q] obtain rs0 fe where
    sc: "scan_files B S (String_toLowerCase B query) (max_results topK) (required_tags filterTags) files ([], [])
           = Inr (rs0, fe)"
    by (metis surj_pair)
  then have "naiveVectorStoreSearch B E S query topK filterTags
               = Inr (slice0 rs0 (max_results topK), fe)"
    by (simp add: search_unfold[OF cfg lst])
  from search_exact[OF cfg lst k this] this show ?thesis by auto
qed

lemma search_stop:
  assumes cfg: "is_set (OPENAI_API_KEY E)" "is_set (VECTOR_STORE_ID E)"
    and lst: "listed_files B S = Inr (pre @ suf)"
    and k: "1 \<le> max_results topK"
    and sc: "scan_files B S (String_toLowerCase B query) (max_results topK) (required_tags filterTags)
               pre ([], []) = Inr (rs, fe)"
    and full: "int (length rs) \<ge> max_results topK"
  shows "naiveVectorStoreSearch B E S query topK filterTags = Inr (rs, fe)"
proof -
  let ?m = "max_results topK"
  from scan_files_exact[OF sc] k
  have "rs = take (nat ?m) (store_matches B S (String_toLowerCase B query) (required_tags filterTags) pre)"
    by simp
  then have "slice0 rs ?m = rs" using k by (metis slice0_take order_trans zero_le_one)
  with scan_files_stop[OF sc full, of suf] show ?thesis
    by (simp add: search_unfold[OF cfg lst])
qed

lemma max_results_bound:
  "topK = None \<and> k = 10 \<or> topK = Some 0 \<and> k = 10 \<or> topK = Some k \<and> 1 \<le> k \<Longrightarrow> max_results topK = k \<and> 1 \<le> k"
  by (auto simp: max_results_def)

text \<open>
  Claim C3.  Let the search be configured and the listing give \<open>files\<close>.  The bound \<open>k\<close>
  is \<^verbatim>\<open>topK\<close> when that is at least 1 (the tool's schema admits 1 to 50), and 10 when
  \<^verbatim>\<open>topK\<close> is absent or zero.  Whenever the search returns, its results are the first \<open>k\<close>
  matching lines of the listed files in file-listing-then-line order, their number is the
  minimum of \<open>k\<close> and of the number of matching lines, and each has the score 1; the
  search does return when nothing throws on any listed file.  Scanning stops once the
  bound is reached: when the files of a prefix of the listing already give \<open>k\<close> results,
  the search ends with the results and the request log of that prefix, whatever the
  remaining files are, and likewise the inner loop ends with the results of a prefix of the
  lines, whatever the remaining lines are.
\<close>

theorem search_first_matches:
  assumes "is_set (OPENAI_API_KEY E)" and "is_set (VECTOR_STORE_ID E)"
    and "listed_files B S = Inr files"
    and "topK = None \<and> k = 10 \<or> topK = Some 0 \<and> k = 10 \<or> topK = Some k \<and> 1 \<le> k"
  shows
    "(\<forall>rs fe. naiveVectorStoreSearch B E S query topK filterTags = Inr (rs, fe) \<longrightarrow>
          rs = take (nat k)
                 (store_matches B S (String_toLowerCase B query) (required_tags filterTags) files)
          \<and> int (length rs) =
              min k
                (int (length (store_matches B S (String_toLowerCase B query)
                                (required_tags filterTags) files)))
          \<and> (\<forall>r \<in> set rs. rd r ''score'' = JNum (Fin 1)))
     \<and> (list_all (file_quiet B S (String_toLowerCase B query) (required_tags filterTags)) files \<longrightarrow>
          (\<exists>fe. naiveVectorStoreSearch B E S query topK filterTags =
             Inr (take (nat k)
                    (store_matches B S (String_toLowerCase B query) (required_tags filterTags)
                       files), fe)))
     \<and> (\<forall>pre suf rs fe.
          files = pre @ suf
          \<and> scan_files B S (String_toLowerCase B query) k (required_tags filterTags)
                pre ([], []) = Inr (rs, fe)
          \<and> int (length rs) \<ge> k \<longrightarrow>
          naiveVectorStoreSearch B E S query topK filterTags = Inr (rs, fe))
     \<and> (\<forall>pre suf rs0 rs.
          scan_lines B (String_toLowerCase B query) k (required_tags filterTags) pre rs0 = Inr rs
          \<and> int (length rs) \<ge> k \<longrightarrow>
          scan_lines B (String_toLowerCase B query) k (required_tags filterTags) (pre @ suf) rs0
            = Inr rs)"
proof -
  from max_results_bound[OF assms(4)] have m: "max_results topK = k" and k: "1 \<le> k"
    by simp_all
  have k': "1 \<le> max_results topK" using m k by simp
  let ?ms = "store_matches B S (String_toLowerCase B query) (required_tags filterTags) files"
  have b: "rs = take (nat k) ?ms \<and> int (length rs) = min k (int (length ?ms))
          \<and> (\<forall>r \<in> set rs. rd r ''score'' = JNum (Fin 1))"
    if "naiveVectorStoreSearch B E S query topK filterTags = Inr (rs, fe)" for rs fe
  proof -
    note e = search_exact[OF assms(1-3) k' that, unfolded m]
    have "int (length rs) = min k (int (length ?ms))"
    proof -
      have "length rs = min (length ?ms) (nat k)"
        by (subst e) simp
      with k show ?thesis by linarith
    qed
    moreover have "\<forall>r \<in> set rs. rd r ''score'' = JNum (Fin 1)"
      by (subst e) (auto dest: in_set_takeD store_matches_score)
    ultimately show ?thesis using e by blast
  qed
  note c = search_returns[OF assms(1-3) k', unfolded m]
  have d: "naiveVectorStoreSearch B E S query topK filterTags = Inr (rs, fe)"
    if "files = pre @ suf"
      "scan_files B S (String_toLowerCase B query) k (required_tags filterTags)
                pre ([], []) = Inr (rs, fe)"
      "int (length rs) \<ge> k" for pre suf rs fe
    using search_stop[OF assms(1,2) _ k', unfolded m, OF _ that(2,3)] assms(3) that(1) by simp
  show ?thesis
  proof (intro conjI allI impI)
    fix rs fe
    assume "naiveVectorStoreSearch B E S query topK filterTags = Inr (rs, fe)"
    from b[OF this]
    show "rs = take (nat k) ?ms"
      and "int (length rs) = min k (int (length ?ms))"
      and "\<forall>r \<in> set rs. rd r ''score'' = JNum (Fin 1)"
      by blast+
  next
    assume "list_all (file_quiet B S (String_toLowerCase B query) (required_tags filterTags)) files"
    then show "\<exists>fe. naiveVectorStoreSearch B E S query topK filterTags =
             Inr (take (nat k) ?ms, fe)"
      by (rule c)
  next
    fix pre suf rs fe
    assume "files = pre @ suf
          \<and> scan_files B S (String_toLowerCase B query) k (required_tags filterTags)
                pre ([], []) = Inr (rs, fe)
          \<and> int (length rs) \<ge> k"
    then show "naiveVectorStoreSearch B E S query topK filterTags = Inr (rs, fe)"
      using d by blast
  next
    fix pre suf rs0 rs
    assume "scan_lines B (String_toLowerCase B query) k (required_tags filterTags) pre rs0 = Inr rs
          \<and> int (length rs) \<ge> k"
    then show "scan_lines B (String_toLowerCase B query) k (required_tags filterTags)
            (pre @ suf) rs0 = Inr rs"
      using scan_lines_stop by blast
  qed
qed

text \<open>The example of the claim: thirty matching lines in two files and \<^verbatim>\<open>top_k = 5\<close> give
  exactly the five earliest matches, and the second file is never requested.  Without
  \<^verbatim>\<open>top_k\<close> the same store gives ten results, with 20 it gives twenty from both files, and
  with 50 all thirty.\<close>

theorem search_first_matches_witness:
  "naiveVectorStoreSearch demo_runtime demo_env store_thirty ''incep'' (Some 5) None =
     Inr (replicate 5 result_inception, [''f1''])
   \<and> naiveVectorStoreSearch demo_runtime demo_env store_thirty ''incep'' None None =
     Inr (replicate 10 result_inception, [''f1''])
   \<and> naiveVectorStoreSearch demo_runtime demo_env store_thirty ''incep'' (Some 20) None =
     Inr (replicate 20 result_inception, [''f1'', ''f2''])
   \<and> naiveVectorStoreSearch demo_runtime demo_env store_thirty ''incep'' (Some 50) None =
     Inr (replicate 30 result_inception, [''f1'', ''f2''])
   \<and> length (store_matches demo_runtime store_thirty (String_toLowerCase demo_runtime ''incep'')
               (required_tags None) [file_f1, file_f2]) = 30"
proof -
  have cfg: "is_set (OPENAI_API_KEY demo_env)" "is_set (VECTOR_STORE_ID demo_env)"
    by code_simp+
  have lst: "listed_files demo_runtime store_thirty = Inr [file_f1, file_f2]"
    by code_simp
  have k: "Some 5 = (None :: int option) \<and> (5::int) = 10 \<or> Some 5 = Some (0::int) \<and> (5::int) = 10
           \<or> Some 5 = Some (5::int) \<and> (1::int) \<le> 5"
    by simp
  have first: "scan_files demo_runtime store_thirty (String_toLowerCase demo_runtime ''incep'') 5
                 (required_tags None) [file_f1] ([], []) = Inr (replicate 5 result_inception, [''f1''])"
    by code_simp
  have full: "int (length (replicate 5 result_inception)) \<ge> 5"
    by simp
  have "[file_f1, file_f2] = [file_f1] @ [file_f2]" by simp
  with search_first_matches[OF cfg lst k, of "''incep''" None] first full
  have "naiveVectorStoreSearch demo_runtime demo_env store_thirty ''incep'' (Some 5) None =
          Inr (replicate 5 result_inception, [''f1''])"
    by blast
  moreover
  have "store_matches demo_runtime store_thirty (String_toLowerCase demo_runtime ''incep'')
          (required_tags None) [file_f1, file_f2] = replicate 30 result_inception"
    by code_simp
  moreover
  have "naiveVectorStoreSearch demo_runtime demo_env store_thirty ''incep'' None None =
     Inr (replicate 10 result_inception, [''f1''])"
    "naiveVectorStoreSearch demo_runtime demo_env store_thirty ''incep'' (Some 20) None =
     Inr (replicate 20 result_inception, [''f1'', ''f2''])"
    "naiveVectorStoreSearch demo_runtime demo_env store_thirty ''incep'' (Some 50) None =
     Inr (replicate 30 result_inception, [''f1'', ''f2''])"
    by code_simp+
  ultimately show ?thesis by simp
qed

subsection \<open>Failures during the scan\<close>

lemma dropWhile_nonempty: "dropWhile P l \<noteq> [] \<longleftrightarrow> (\<exists>c \<in> set l. \<not> P c)"
  by (simp add: dropWhile_eq_Nil_conv)

lemma trim_nonempty: "trim B l \<noteq> [] \<longleftrightarrow> (\<exists>c \<in> set l. \<not> WhiteSpace B c)"
proof -
  have "trim B l \<noteq> [] \<longleftrightarrow> (\<exists>c \<in> set (dropWhile (WhiteSpace B) l). \<not> WhiteSpace B c)"
    by (simp add: trim_def dropWhile_nonempty)
  also have "\<dots> \<longleftrightarrow> dropWhile (WhiteSpace B) l \<noteq> []"
  proof
    assume "\<exists>c \<in> set (dropWhile (WhiteSpace B) l). \<not> WhiteSpace B c"
    then show "dropWhile (WhiteSpace B) l \<noteq> []" by (auto dest: set_dropWhileD)
  next
    assume ne: "dropWhile (WhiteSpace B) l \<noteq> []"
    then have "\<not> WhiteSpace B (hd (dropWhile (WhiteSpace B) l))" by (rule hd_dropWhile)
    moreover from ne have "hd (dropWhile (WhiteSpace B) l) \<in> set (dropWhile (WhiteSpace B) l)"
      by simp
    ultimately show "\<exists>c \<in> set (dropWhile (WhiteSpace B) l). \<not> WhiteSpace B c" by blast
  qed
  also have "\<dots> \<longleftrightarrow> (\<exists>c \<in> set l. \<not> WhiteSpace B c)"
    by (rule dropWhile_nonempty)
  finally show ?thesis .
qed

lemma nonblank_lines_filter:
  "nonblank_lines B txt = filter (\<lambda>l. \<exists>c \<in> set l. \<not> WhiteSpace B c) (split_lines txt)"
  by (simp add: nonblank_lines_def trim_nonempty)

lemma search_no_match:
  assumes cfg: "is_set (OPENAI_API_KEY E)" "is_set (VECTOR_STORE_ID E)"
    and lst: "listed_files B S = Inr files"
    and q: "list_all (file_quiet B S (String_toLowerCase B query) (required_tags filterTags)) files"
    and none: "store_matches B S (String_toLowerCase B query) (required_tags filterTags) files = []"
  shows "\<exists>fe. naiveVectorStoreSearch B E S query topK filterTags = Inr ([], fe)"
proof -
  from scan_files_total[OF q] obtain rs0 fe where
    sc: "scan_files B S (String_toLowerCase B query) (max_results topK) (required_tags filterTags) files ([], [])
           = Inr (rs0, fe)"
    by (metis surj_pair)
  from scan_files_exact[OF sc] none have "rs0 = []" by simp
  with sc show ?thesis by (simp add: search_unfold[OF cfg lst] slice0_def)
qed

text \<open>
  Claim C4, as amended.  A listed file whose content request resolves with a status
  outside the success range is skipped, and the scan goes on with the remaining files: the
  results are those of the listing without that file.  The lines scanned are the lines of
  the text that hold a code unit other than white space.  A line that \<^verbatim>\<open>JSON.parse\<close>
  rejects is skipped: the loop gives what it gives without that line, and no error
  surfaces.  A search in which nothing throws on any listed file and no line matches
  returns the empty list.
\<close>

theorem scan_skips_failures:
  "(fetch_not_ok B S f \<longrightarrow>
      results_of (scan_files B S ql m req (pre @ f # post) st) =
      results_of (scan_files B S ql m req (pre @ post) st))
   \<and> nonblank_lines B txt = filter (\<lambda>l. \<exists>c \<in> set l. \<not> WhiteSpace B c) (split_lines txt)
   \<and> (JSON_parse B bad = None \<longrightarrow>
        scan_lines B ql m req (before @ bad # after) rs =
        scan_lines B ql m req (before @ after) rs)
   \<and> (is_set (OPENAI_API_KEY E) \<and> is_set (VECTOR_STORE_ID E)
        \<and> listed_files B S = Inr files
        \<and> list_all (file_quiet B S (String_toLowerCase B query) (required_tags filterTags)) files
        \<and> store_matches B S (String_toLowerCase B query) (required_tags filterTags) files = [] \<longrightarrow>
        (\<exists>fe. naiveVectorStoreSearch B E S query topK filterTags = Inr ([], fe)))"
proof (intro conjI impI)
  assume "fetch_not_ok B S f"
  then show "results_of (scan_files B S ql m req (pre @ f # post) st) =
      results_of (scan_files B S ql m req (pre @ post) st)"
    by (rule scan_files_skip)
next
  show "nonblank_lines B txt = filter (\<lambda>l. \<exists>c \<in> set l. \<not> WhiteSpace B c) (split_lines txt)"
    by (rule nonblank_lines_filter)
next
  assume "JSON_parse B bad = None"
  then show "scan_lines B ql m req (before @ bad # after) rs =
        scan_lines B ql m req (before @ after) rs"
    by (rule scan_lines_skip_unparsable)
next
  assume "is_set (OPENAI_API_KEY E) \<and> is_set (VECTOR_STORE_ID E)
        \<and> listed_files B S = Inr files
        \<and> list_all (file_quiet B S (String_toLowerCase B query) (required_tags filterTags)) files
        \<and> store_matches B S (String_toLowerCase B query) (required_tags filterTags) files = []"
  then show "\<exists>fe. naiveVectorStoreSearch B E S query topK filterTags = Inr ([], fe)"
    using search_no_match by blast
qed

text \<open>Examples: a file answered with status 503 before a file with one record; a text with
  blank lines and a line that is one no-break space; a broken line before a record; a query
  that nothing matches.  A file that holds a record whose comment cannot be converted is
  not among those on which nothing throws, and the search on its store throws.\<close>

theorem scan_skips_failures_witness:
  "results_of (scan_files demo_runtime store_failing (String_toLowerCase demo_runtime ''incep'')
                 10 None [file_f1, file_f2] ([], [])) = Inr [result_inception]
   \<and> nonblank_lines demo_runtime
       (''  '' @ [CHR 0x0A] @ line_inception @ [CHR 0x0A, CHR 0x0A, CHR 0x09, CHR 0x0A, CHR 0xA0])
       = [line_inception]
   \<and> scan_lines demo_runtime (String_toLowerCase demo_runtime ''incep'') 10 None
       [line_broken, line_inception] [] = Inr [result_inception]
   \<and> (\<exists>fe. naiveVectorStoreSearch demo_runtime demo_env store_failing ''zzz'' None None
              = Inr ([], fe))
   \<and> \<not> list_all (file_quiet demo_runtime store_unconvertible
                   (String_toLowerCase demo_runtime ''zzz'') (required_tags None))
          [file_f1, file_f2]
   \<and> naiveVectorStoreSearch demo_runtime demo_env store_unconvertible ''zzz'' None None
       = Inl cannot_convert"
proof -
  note inst = scan_skips_failures[of demo_runtime store_failing file_f1
      "String_toLowerCase demo_runtime ''incep''" 10
      None "[]" "[file_f2]" "([], [])"
      "''  '' @ [CHR 0x0A] @ line_inception @ [CHR 0x0A, CHR 0x0A, CHR 0x09, CHR 0x0A, CHR 0xA0]"
      line_broken "[]" "[line_inception]" "[]" demo_env "[file_f1, file_f2]" "''zzz''" None None]
  have a: "fetch_not_ok demo_runtime store_failing file_f1" by code_simp
  have a': "results_of (scan_files demo_runtime store_failing
                 (String_toLowerCase demo_runtime ''incep'') 10 None
                 ([] @ [file_f2]) ([], [])) = Inr [result_inception]"
    by code_simp
  have b: "filter (\<lambda>l. \<exists>c \<in> set l. \<not> WhiteSpace demo_runtime c)
             (split_lines (''  '' @ [CHR 0x0A] @ line_inception @
                             [CHR 0x0A, CHR 0x0A, CHR 0x09, CHR 0x0A, CHR 0xA0]))
           = [line_inception]"
    by code_simp
  have c: "JSON_parse demo_runtime line_broken = None" by code_simp
  have c': "scan_lines demo_runtime (String_toLowerCase demo_runtime ''incep'') 10 None
              ([] @ [line_inception]) [] = Inr [result_inception]"
    by code_simp
  have d: "is_set (OPENAI_API_KEY demo_env) \<and> is_set (VECTOR_STORE_ID demo_env)
        \<and> listed_files demo_runtime store_failing = Inr [file_f1, file_f2]
        \<and> list_all (file_quiet demo_runtime store_failing
                       (String_toLowerCase demo_runtime ''zzz'') (required_tags None))
            [file_f1, file_f2]
        \<and> store_matches demo_runtime store_failing (String_toLowerCase demo_runtime ''zzz'')
            (required_tags None) [file_f1, file_f2] = []"
    by code_simp
  have e: "\<not> list_all (file_quiet demo_runtime store_unconvertible
                   (String_toLowerCase demo_runtime ''zzz'') (required_tags None))
          [file_f1, file_f2]"
    by code_simp
  have f: "naiveVectorStoreSearch demo_runtime demo_env store_unconvertible ''zzz'' None None
             = Inl cannot_convert"
    by code_simp
  from inst a a' b c c' d e f show ?thesis by simp
qed

text \<open>Claim C4 as it was stated fails for a content request that rejects (a network
  failure): the rejection leaves the search, although the remaining file holds a match;
  and with a query that no line matches the same search throws instead of returning the
  empty list.\<close>

theorem scan_skips_failures_counterexample:
  "naiveVectorStoreSearch demo_runtime demo_env store_rejecting ''incep'' None None
     = Inl (FetchError ''request failed'')
   \<and> naiveVectorStoreSearch demo_runtime demo_env
       (store_rejecting\<lparr>list_files := Inr (ok_response listing_f2)\<rparr>) ''incep'' None None
     = Inr ([result_inception], [''f2''])
   \<and> naiveVectorStoreSearch demo_runtime demo_env store_rejecting ''zzz'' None None
     = Inl (FetchError ''request failed'')
   \<and> store_matches demo_runtime store_rejecting (String_toLowerCase demo_runtime ''zzz'')
       (required_tags None) [file_f1, file_f2] = []"
  by code_simp

subsection \<open>The document codec\<close>

lemma hex_digit_no_nl: "hex_digit n \<noteq> CHR 0x0A"
proof -
  have "hex_digit n \<in> set ''0123456789abcdef''"
    unfolding hex_digit_def by (rule nth_mem) simp
  then show ?thesis by auto
qed

lemma json_escape_no_nl: "CHR 0x0A \<notin> set (json_escape c)"
  by (simp add: json_escape_def hex_digit_no_nl[symmetric])

lemma json_quote_no_nl: "CHR 0x0A \<notin> set (json_quote s)"
  by (simp add: json_quote_def json_escape_no_nl)

lemma join_comma_no_nl:
  "\<forall>s \<in> set ss. CHR 0x0A \<notin> set s \<Longrightarrow> CHR 0x0A \<notin> set (join_comma ss)"
  by (induction ss rule: join_comma.induct) auto

lemma stringify_no_nl:
  "\<forall>r. CHR 0x0A \<notin> set (Number_toString B r) \<Longrightarrow> CHR 0x0A \<notin> set (stringify B v)"
  "\<forall>r. CHR 0x0A \<notin> set (Number_toString B r) \<Longrightarrow>
     \<forall>s \<in> set (elem_strs B xs). CHR 0x0A \<notin> set s"
  "\<forall>r. CHR 0x0A \<notin> set (Number_toString B r) \<Longrightarrow>
     \<forall>s \<in> set (member_strs B kvs). CHR 0x0A \<notin> set s"
proof (induction B v and B xs and B kvs rule: stringify_elem_strs_member_strs.induct)
  case (4 B n)
  then show ?case by (cases n) auto
next
  case (5 B s)
  then show ?case by (simp add: json_quote_no_nl)
next
  case (6 B xs)
  then show ?case using join_comma_no_nl by auto
next
  case (7 B kvs)
  then show ?case using join_comma_no_nl by auto
next
  case (11 B k v kvs)
  then show ?case by (auto simp: json_quote_no_nl)
qed auto

lemma show_nat_digits: "set (show_nat n) \<subseteq> set ''0123456789''"
proof (induction n rule: show_nat.induct)
  case (1 n)
  show ?case
  proof (cases "n < 10")
    case True
    then have "''0123456789'' ! n \<in> set ''0123456789''" by (intro nth_mem) simp
    with True show ?thesis by (subst show_nat.simps) simp
  next
    case False
    have "''0123456789'' ! (n mod 10) \<in> set ''0123456789''" by (intro nth_mem) simp
    with False 1 show ?thesis by (subst show_nat.simps) simp
  qed
qed

lemma demo_number_no_nl: "\<forall>r. CHR 0x0A \<notin> set (Number_toString demo_runtime r)"
  using show_nat_digits by (fastforce simp: demo_runtime_def)

lemmas movie_fields = movie_record_def field_def nullish_def js_or_def

text \<open>
  Claim C5, as amended.  For every input fact, the codec fills \<^verbatim>\<open>year\<close>, \<^verbatim>\<open>trakt_id\<close>,
  \<^verbatim>\<open>imdb\<close>, \<^verbatim>\<open>slug\<close>, \<^verbatim>\<open>tmdb\<close>, \<^verbatim>\<open>rating\<close>, \<^verbatim>\<open>liked\<close> and \<^verbatim>\<open>comment\<close> with
  \<^verbatim>\<open>null\<close> when they are absent (or null), \<^verbatim>\<open>tags\<close> with the empty array, \<^verbatim>\<open>state\<close> with
  \<^verbatim>\<open>seen\<close>, \<^verbatim>\<open>source\<close> with \<^verbatim>\<open>manual\<close>, and a \<^verbatim>\<open>type\<close> that is absent or falsy with
  \<^verbatim>\<open>movie_seen\<close>; it passes \<^verbatim>\<open>title\<close> on as it is, so an absent title stays absent; it
  stamps \<^verbatim>\<open>marked_at\<close> with the clock reading taken when it runs.  The line it returns is
  the JSON text of that record followed by one line feed, and the JSON text holds no line
  feed, the runtime rendering a number without one.
\<close>

theorem encode_defaults_one_line:
  assumes "\<forall>r. CHR 0x0A \<notin> set (Number_toString B r)"
  shows
    "(\<forall>k \<in> set [''year'', ''trakt_id'', ''imdb'', ''slug'', ''tmdb'', ''rating'', ''liked'',
                 ''comment''].
        field movie k = JUndefined \<or> field movie k = JNull \<longrightarrow>
        field (movie_record now movie) k = JNull)
     \<and> (field movie ''tags'' = JUndefined \<or> field movie ''tags'' = JNull \<longrightarrow>
          field (movie_record now movie) ''tags'' = JArr [])
     \<and> (field movie ''state'' = JUndefined \<or> field movie ''state'' = JNull \<longrightarrow>
          field (movie_record now movie) ''state'' = JStr ''seen'')
     \<and> (field movie ''source'' = JUndefined \<or> field movie ''source'' = JNull \<longrightarrow>
          field (movie_record now movie) ''source'' = JStr ''manual'')
     \<and> (\<not> truthy (field movie ''type'') \<longrightarrow>
          field (movie_record now movie) ''type'' = JStr ''movie_seen'')
     \<and> field (movie_record now movie) ''title'' = field movie ''title''
     \<and> field (movie_record now movie) ''marked_at'' = JStr now
     \<and> (\<exists>s. buildMovieDocument B now movie = s @ [CHR 0x0A] \<and> CHR 0x0A \<notin> set s
             \<and> s = stringify B (JObj (movie_record now movie)))"
proof -
  have "CHR 0x0A \<notin> set (stringify B (JObj (movie_record now movie)))"
    by (rule stringify_no_nl(1)[OF assms])
  then have "\<exists>s. buildMovieDocument B now movie = s @ [CHR 0x0A] \<and> CHR 0x0A \<notin> set s
             \<and> s = stringify B (JObj (movie_record now movie))"
    by (simp add: buildMovieDocument_def)
  moreover have "\<forall>k \<in> set [''year'', ''trakt_id'', ''imdb'', ''slug'', ''tmdb'', ''rating'', ''liked'',
                 ''comment''].
        field movie k = JUndefined \<or> field movie k = JNull \<longrightarrow>
        field (movie_record now movie) k = JNull"
    by (simp add: movie_fields)
  moreover have "field (movie_record now movie) ''title'' = field movie ''title''"
    "field (movie_record now movie) ''marked_at'' = JStr now"
    by (simp_all add: movie_fields)
  moreover have "field movie ''tags'' = JUndefined \<or> field movie ''tags'' = JNull \<longrightarrow>
          field (movie_record now movie) ''tags'' = JArr []"
    "field movie ''state'' = JUndefined \<or> field movie ''state'' = JNull \<longrightarrow>
          field (movie_record now movie) ''state'' = JStr ''seen''"
    "field movie ''source'' = JUndefined \<or> field movie ''source'' = JNull \<longrightarrow>
          field (movie_record now movie) ''source'' = JStr ''manual''"
    "\<not> truthy (field movie ''type'') \<longrightarrow>
          field (movie_record now movie) ''type'' = JStr ''movie_seen''"
    by (simp_all add: movie_fields)
  ultimately show ?thesis by blast
qed

text \<open>An example of a movie whose comment has two lines: the line feed inside the comment
  is written as an escape.\<close>

theorem encode_defaults_one_line_witness:
  \<open>buildMovieDocument demo_runtime demo_now movie_inception =
     ''{"type":"movie_seen","title":"Inception","year":2010,"trakt_id":null,"imdb":null,"slug":null,"tmdb":null,"rating":null,"liked":null,"state":"seen","source":"manual","marked_at":"2024-05-01T10:00:00.000Z","tags":[],"comment":"two'' @ [CHR 0x5C] @ ''nlines"}''
       @ [CHR 0x0A]
   \<and> (\<exists>s. buildMovieDocument demo_runtime demo_now movie_inception = s @ [CHR 0x0A]
            \<and> CHR 0x0A \<notin> set s)
   \<and> field (movie_record demo_now movie_inception) ''rating'' = JNull
   \<and> field (movie_record demo_now movie_inception) ''tags'' = JArr []
   \<and> field (movie_record demo_now movie_inception) ''marked_at'' = JStr demo_now\<close>
proof -
  have \<open>buildMovieDocument demo_runtime demo_now movie_inception =
     ''{"type":"movie_seen","title":"Inception","year":2010,"trakt_id":null,"imdb":null,"slug":null,"tmdb":null,"rating":null,"liked":null,"state":"seen","source":"manual","marked_at":"2024-05-01T10:00:00.000Z","tags":[],"comment":"two'' @ [CHR 0x5C] @ ''nlines"}''
       @ [CHR 0x0A]\<close>
    by code_simp
  moreover have "field movie_inception ''rating'' = JUndefined"
    "field movie_inception ''tags'' = JUndefined"
    by code_simp+
  ultimately show ?thesis
    using encode_defaults_one_line[OF demo_number_no_nl, of movie_inception demo_now]
    by auto
qed

text \<open>Claim C5 as it was stated fails for the title and the type: an absent title gets no
  default (the line has no \<^verbatim>\<open>title\<close> member at all), and an absent type gets
  \<^verbatim>\<open>movie_seen\<close>, not \<^verbatim>\<open>null\<close>.\<close>

theorem encode_defaults_one_line_counterexample:
  \<open>field [] ''title'' = JUndefined
   \<and> field (movie_record demo_now []) ''title'' = JUndefined
   \<and> field (movie_record demo_now []) ''type'' = JStr ''movie_seen''
   \<and> buildMovieDocument demo_runtime demo_now [] =
      ''{"type":"movie_seen","year":null,"trakt_id":null,"imdb":null,"slug":null,"tmdb":null,"rating":null,"liked":null,"state":"seen","source":"manual","marked_at":"2024-05-01T10:00:00.000Z","tags":[],"comment":null}''
        @ [CHR 0x0A]\<close>
  by code_simp

subsection \<open>The store uploader\<close>

text \<open>
  Claim C6 does not hold of the code.  The \<^verbatim>\<open>finally\<close> block starts the unlink of the
  temporary file and does not wait for it, so a call whose every step succeeds settles with
  the file id while the temporary file is still there; it is gone only once the unlink has
  settled, and stays for good if the unlink fails.  The first member holds for every call
  that has written the file and settles before the removal has taken effect; the others
  evaluate the call in which every step succeeds.
\<close>

theorem upload_returns_before_unlink:
  "fst (snd (uploadTextToVectorStore B (U\<lparr>writeFile := None, unlinked_at_return := False\<rparr>)
               fs txt)) (tmpPath U) = Some txt
   \<and> fst (uploadTextToVectorStore demo_runtime upload_ok no_files ''x'') = Inr ''file_1''
   \<and> snd (snd (uploadTextToVectorStore demo_runtime upload_ok no_files ''x'')) =
       [WriteFile (tmpPath upload_ok) ''x'', FilesCreate (tmpPath upload_ok),
        AttachFile ''file_1'', Unlink (tmpPath upload_ok)]
   \<and> fst (snd (uploadTextToVectorStore demo_runtime upload_ok no_files ''x''))
        (tmpPath upload_ok) = Some ''x''
   \<and> after_unlink upload_ok
        (fst (snd (uploadTextToVectorStore demo_runtime upload_ok no_files ''x'')))
        (tmpPath upload_ok) = None
   \<and> after_unlink (upload_ok\<lparr>unlink := Some (Error ''EPERM'')\<rparr>)
        (fst (snd (uploadTextToVectorStore demo_runtime
                     (upload_ok\<lparr>unlink := Some (Error ''EPERM'')\<rparr>) no_files ''x'')))
        (tmpPath upload_ok) = Some ''x''"
proof -
  have "fst (snd (uploadTextToVectorStore B (U\<lparr>writeFile := None, unlinked_at_return := False\<rparr>)
               fs txt)) (tmpPath U) = Some txt"
    by (simp add: uploadTextToVectorStore_def)
  moreover have "fst (uploadTextToVectorStore demo_runtime upload_ok no_files ''x'') = Inr ''file_1''"
    by code_simp
  moreover have "snd (snd (uploadTextToVectorStore demo_runtime upload_ok no_files ''x'')) =
       [WriteFile (tmpPath upload_ok) ''x'', FilesCreate (tmpPath upload_ok),
        AttachFile ''file_1'', Unlink (tmpPath upload_ok)]"
    by code_simp
  moreover have "fst (snd (uploadTextToVectorStore demo_runtime upload_ok no_files ''x''))
        (tmpPath upload_ok) = Some ''x''"
    by code_simp
  moreover have "after_unlink upload_ok
        (fst (snd (uploadTextToVectorStore demo_runtime upload_ok no_files ''x'')))
        (tmpPath upload_ok) = None"
    by code_simp
  moreover have "after_unlink (upload_ok\<lparr>unlink := Some (Error ''EPERM'')\<rparr>)
        (fst (snd (uploadTextToVectorStore demo_runtime
                     (upload_ok\<lparr>unlink := Some (Error ''EPERM'')\<rparr>) no_files ''x'')))
        (tmpPath upload_ok) = Some ''x''"
    by code_simp
  ultimately show ?thesis by blast
qed

subsection \<open>The route \<^verbatim>\<open>POST /mark-seen\<close>\<close>

lemma upload_success_calls:
  assumes "fst (uploadTextToVectorStore B U fs txt) = Inr fileId"
  shows "snd (snd (uploadTextToVectorStore B U fs txt)) =
           [WriteFile (tmpPath U) txt, FilesCreate (tmpPath U), AttachFile fileId,
            Unlink (tmpPath U)]"
  using assms
  by (auto simp: uploadTextToVectorStore_def upload_try_def
      split: option.splits sum.splits if_splits)

lemma mark_seen_titled:
  assumes "rd (request_body body) ''title'' = JStr t" and "t \<noteq> []"
  shows "mark_seen B E W fs body =
     (case uploadTextToVectorStore B (uploader W) fs
             (buildMovieDocument B (clock W) (mark_seen_movie (request_body body))) of
        (Inl err, fs', calls) \<Rightarrow>
          (\<lparr>status = 500,
            json = JObj [(''error'', JStr ''internal_error''),
                         (''details'', JStr (error_details err))]\<rparr>, fs', calls)
      | (Inr fileId, fs', calls) \<Rightarrow>
          (\<lparr>status = 200,
            json = JObj [(''ok'', JBool True),
                         (''stored'', stored_of (request_body body)),
                         (''vectorStoreFileId'', JStr fileId),
                         (''trakt'', fst (mirror B E W (request_body body)))]\<rparr>,
           fs', calls @ snd (mirror B E W (request_body body))))"
  using assms by (simp add: mark_seen_def Let_def is_string_def)

text \<open>
  Claim C7.  For every request with a non-empty string title for which the upload to the
  store succeeds with \<open>fileId\<close>, the route wants the mirror call, and the mirror call
  fails with \<open>err\<close>: the route answers with status 200 and \<^verbatim>\<open>ok: true\<close>, the answer carries
  the file id and the failure as the member \<^verbatim>\<open>error\<close> of \<^verbatim>\<open>trakt\<close>, and the external calls
  are those of the upload followed by those of the mirror call; nothing undoes the write.
\<close>

theorem mirror_failure_nonfatal:
  assumes "rd (request_body body) ''title'' = JStr t" and "t \<noteq> []"
    and "fst (uploadTextToVectorStore B (uploader W) fs
                (buildMovieDocument B (clock W) (mark_seen_movie (request_body body))))
           = Inr fileId"
    and "wants_trakt E (request_body body)"
    and "fst (traktAddToHistory B E (trakt_post W) (mark_seen_ids (request_body body))) = Inl err"
  shows
    "status (fst (mark_seen B E W fs body)) = 200
     \<and> rd (json (fst (mark_seen B E W fs body))) ''ok'' = JBool True
     \<and> rd (json (fst (mark_seen B E W fs body))) ''vectorStoreFileId'' = JStr fileId
     \<and> rd (json (fst (mark_seen B E W fs body))) ''trakt'' =
         JObj [(''error'', JStr (error_details err))]
     \<and> snd (snd (mark_seen B E W fs body)) =
         [WriteFile (tmpPath (uploader W))
            (buildMovieDocument B (clock W) (mark_seen_movie (request_body body))),
          FilesCreate (tmpPath (uploader W)), AttachFile fileId, Unlink (tmpPath (uploader W))]
         @ snd (traktAddToHistory B E (trakt_post W) (mark_seen_ids (request_body body)))"
proof -
  let ?doc = "buildMovieDocument B (clock W) (mark_seen_movie (request_body body))"
  let ?up = "uploadTextToVectorStore B (uploader W) fs ?doc"
  obtain fs' calls where up: "?up = (Inr fileId, fs', calls)"
    using assms(3) by (cases ?up) auto
  have calls: "calls = [WriteFile (tmpPath (uploader W)) ?doc, FilesCreate (tmpPath (uploader W)),
                        AttachFile fileId, Unlink (tmpPath (uploader W))]"
    using upload_success_calls[OF assms(3)] up by simp
  obtain tc where tr: "traktAddToHistory B E (trakt_post W) (mark_seen_ids (request_body body))
                         = (Inl err, tc)"
    using assms(5) by (cases "traktAddToHistory B E (trakt_post W) (mark_seen_ids (request_body body))") auto
  have m: "mirror B E W (request_body body) = (JObj [(''error'', JStr (error_details err))], tc)"
    using assms(4) tr by (simp add: mirror_def)
  show ?thesis
    by (simp add: mark_seen_titled[OF assms(1,2)] up m calls tr rd_def)
qed

text \<open>An example: the tracking service answers the mirror call with status 401.\<close>

theorem mirror_failure_nonfatal_witness:
  "fst (mark_seen demo_runtime demo_env trakt_down no_files body_inception) =
     \<lparr>status = 200,
      json = JObj [(''ok'', JBool True),
                   (''stored'', stored_of body_inception),
                   (''vectorStoreFileId'', JStr ''file_1''),
                   (''trakt'', JObj [(''error'',
                        JStr ''Trakt add-to-history error 401: unauthorized'')])]\<rparr>
   \<and> rd (json (fst (mark_seen demo_runtime demo_env trakt_down no_files body_inception))) ''trakt''
       = JObj [(''error'', JStr ''Trakt add-to-history error 401: unauthorized'')]
   \<and> AttachFile ''file_1''
       \<in> set (snd (snd (mark_seen demo_runtime demo_env trakt_down no_files body_inception)))"
proof -
  have t: "rd (request_body body_inception) ''title'' = JStr ''Inception''" "''Inception'' \<noteq> []"
    by code_simp+
  have u: "fst (uploadTextToVectorStore demo_runtime (uploader trakt_down) no_files
                (buildMovieDocument demo_runtime (clock trakt_down)
                   (mark_seen_movie (request_body body_inception)))) = Inr ''file_1''"
    by code_simp
  have w: "wants_trakt demo_env (request_body body_inception)"
    by code_simp
  have f: "fst (traktAddToHistory demo_runtime demo_env (trakt_post trakt_down)
                  (mark_seen_ids (request_body body_inception)))
             = Inl (Error ''Trakt add-to-history error 401: unauthorized'')"
    by code_simp
  have d: "error_details (Error ''Trakt add-to-history error 401: unauthorized'')
             = ''Trakt add-to-history error 401: unauthorized''"
    by code_simp
  have whole: "fst (mark_seen demo_runtime demo_env trakt_down no_files body_inception) =
     \<lparr>status = 200,
      json = JObj [(''ok'', JBool True),
                   (''stored'', stored_of body_inception),
                   (''vectorStoreFileId'', JStr ''file_1''),
                   (''trakt'', JObj [(''error'',
                        JStr ''Trakt add-to-history error 401: unauthorized'')])]\<rparr>"
    by code_simp
  from mirror_failure_nonfatal[OF t u w f] d whole
  show ?thesis by simp
qed

text \<open>
  Claim C8.  For every request whose body has no title, or a title that is not a string
  (or the empty string), the route answers with status 400 and the message
  \<^verbatim>\<open>title is required (string)\<close>; it makes no external call and leaves the file system as it
  was.
\<close>

theorem missing_title_rejected:
  assumes "\<not> is_string (rd (request_body body) ''title'') \<or> rd (request_body body) ''title'' = JStr []"
  shows "mark_seen B E W fs body =
           (\<lparr>status = 400, json = JObj [(''error'', JStr ''title is required (string)'')]\<rparr>,
            fs, [])"
  using assms by (auto simp: mark_seen_def Let_def)

text \<open>Examples: a body without a title, a body whose title is a number, and no body.\<close>

theorem missing_title_rejected_witness:
  "mark_seen demo_runtime demo_env trakt_down no_files (JObj [(''year'', JNum (Fin 2010))]) =
     (\<lparr>status = 400, json = JObj [(''error'', JStr ''title is required (string)'')]\<rparr>,
      no_files, [])
   \<and> mark_seen demo_runtime demo_env trakt_down no_files (JObj [(''title'', JNum (Fin 7))]) =
     (\<lparr>status = 400, json = JObj [(''error'', JStr ''title is required (string)'')]\<rparr>,
      no_files, [])
   \<and> mark_seen demo_runtime demo_env trakt_down no_files JUndefined =
     (\<lparr>status = 400, json = JObj [(''error'', JStr ''title is required (string)'')]\<rparr>,
      no_files, [])"
proof -
  have a: "\<not> is_string (rd (request_body (JObj [(''year'', JNum (Fin 2010))])) ''title'')
           \<or> rd (request_body (JObj [(''year'', JNum (Fin 2010))])) ''title'' = JStr []"
    by code_simp
  have b: "\<not> is_string (rd (request_body (JObj [(''title'', JNum (Fin 7))])) ''title'')
           \<or> rd (request_body (JObj [(''title'', JNum (Fin 7))])) ''title'' = JStr []"
    by code_simp
  have c: "\<not> is_string (rd (request_body JUndefined) ''title'')
           \<or> rd (request_body JUndefined) ''title'' = JStr []"
    by code_simp
  from missing_title_rejected[OF a] missing_title_rejected[OF b] missing_title_rejected[OF c]
  show ?thesis by blast
qed

subsection \<open>The tool \<^verbatim>\<open>memory_write\<close>\<close>

text \<open>
  Claim C9, as amended.  For every input that passes the schema: when the uploader returns
  the identifier \<open>f\<close>, the structured output of the tool is the object with the members
  \<^verbatim>\<open>ok: true\<close> and \<^verbatim>\<open>vectorStoreFileId: f\<close>; when the uploader throws, the tool throws the
  same error; the tool makes no external call beyond the uploader's.
\<close>

theorem memory_write_output:
  assumes "memoryWriteSchema kind txt source tags"
  shows
    "(\<forall>f. fst (uploadTextToVectorStore B U fs (memory_doc B now kind txt source tags)) = Inr f \<longrightarrow>
          fst (memory_write B now U fs kind txt source tags) =
            Inr (JObj [(''ok'', JBool True), (''vectorStoreFileId'', JStr f)]))
     \<and> (\<forall>e. fst (uploadTextToVectorStore B U fs (memory_doc B now kind txt source tags)) = Inl e \<longrightarrow>
          fst (memory_write B now U fs kind txt source tags) = Inl e)
     \<and> snd (memory_write B now U fs kind txt source tags) =
         snd (uploadTextToVectorStore B U fs (memory_doc B now kind txt source tags))"
  by (cases "uploadTextToVectorStore B U fs (memory_doc B now kind txt source tags)")
     (auto simp: memory_write_def split: sum.splits)

text \<open>Examples: a write that succeeds, and one whose file creation fails.\<close>

theorem memory_write_output_witness:
  \<open>fst (memory_write demo_runtime demo_now upload_ok no_files ''taste'' ''likes space horror''
          ''chat'' (Some [''mood''])) =
     Inr (JObj [(''ok'', JBool True), (''vectorStoreFileId'', JStr ''file_1'')])
   \<and> fst (memory_write demo_runtime demo_now (upload_ok\<lparr>files_create := Inl (Error ''quota'')\<rparr>)
          no_files ''taste'' ''likes space horror'' ''chat'' (Some [''mood''])) = Inl (Error ''quota'')
   \<and> memory_doc demo_runtime demo_now ''taste'' ''likes space horror'' ''chat'' (Some [''mood'']) =
       ''{"kind":"taste","text":"likes space horror","source":"chat","tags":["mood"],"created_at":"2024-05-01T10:00:00.000Z"}''
         @ [CHR 0x0A]\<close>
proof -
  have s: "memoryWriteSchema ''taste'' ''likes space horror'' ''chat'' (Some [''mood''])"
    by code_simp
  have a: "fst (uploadTextToVectorStore demo_runtime upload_ok no_files
                 (memory_doc demo_runtime demo_now ''taste'' ''likes space horror'' ''chat''
                    (Some [''mood'']))) = Inr ''file_1''"
    by code_simp
  have b: "fst (uploadTextToVectorStore demo_runtime (upload_ok\<lparr>files_create := Inl (Error ''quota'')\<rparr>)
                 no_files
                 (memory_doc demo_runtime demo_now ''taste'' ''likes space horror'' ''chat''
                    (Some [''mood'']))) = Inl (Error ''quota'')"
    by code_simp
  have c: \<open>memory_doc demo_runtime demo_now ''taste'' ''likes space horror'' ''chat'' (Some [''mood'']) =
       ''{"kind":"taste","text":"likes space horror","source":"chat","tags":["mood"],"created_at":"2024-05-01T10:00:00.000Z"}''
         @ [CHR 0x0A]\<close>
    by code_simp
  from memory_write_output[OF s, of demo_runtime upload_ok no_files demo_now]
    memory_write_output[OF s, of demo_runtime "upload_ok\<lparr>files_create := Inl (Error ''quota'')\<rparr>"
      no_files demo_now] a b c
  show ?thesis by blast
qed

text \<open>Claim C9 as it was stated fails on the name of the member: the output of a
  successful write is not the object with the members \<^verbatim>\<open>ok\<close> and \<^verbatim>\<open>fileId\<close>.\<close>

theorem memory_write_output_counterexample:
  "fst (memory_write demo_runtime demo_now upload_ok no_files ''taste'' ''likes space horror''
          ''chat'' None) \<noteq> Inr (JObj [(''ok'', JBool True), (''fileId'', JStr ''file_1'')])
   \<and> fst (uploadTextToVectorStore demo_runtime upload_ok no_files
            (memory_doc demo_runtime demo_now ''taste'' ''likes space horror'' ''chat'' None))
       = Inr ''file_1''
   \<and> memoryWriteSchema ''taste'' ''likes space horror'' ''chat'' None"
  by code_simp

subsection \<open>The history limit\<close>

lemma num_le_Fin1 [simp]: "num_le (Fin 1) n \<longleftrightarrow> n = PosInf \<or> (\<exists>r. n = Fin r \<and> 1 \<le> r)"
  by (cases n) auto

lemma num_le_Fin500 [simp]: "num_le n (Fin 500) \<longleftrightarrow> n = NegInf \<or> (\<exists>r. n = Fin r \<and> r \<le> 500)"
  by (cases n) auto

lemma clamp_cases:
  "Math_max (Fin 1) (Math_min (num_or n (Fin 200)) (Fin 500)) =
     (case n of
        NaN \<Rightarrow> Fin 200
      | PosInf \<Rightarrow> Fin 500
      | NegInf \<Rightarrow> Fin 1
      | Fin r \<Rightarrow> if r = 0 then Fin 200 else if 500 < r then Fin 500 else if r < 1 then Fin 1 else Fin r)"
  by (cases n) (auto simp: Math_max_def Math_min_def num_or_def)

lemma clamp_range:
  "\<exists>r. Math_max (Fin 1) (Math_min (num_or n (Fin 200)) (Fin 500)) = Fin r \<and> 1 \<le> r \<and> r \<le> 500"
  by (cases n) (auto simp: clamp_cases)

lemma safeLimit_cases:
  "safeLimit B limit =
     (if limit = JUndefined then Inr (Fin 200)
      else (case ToNumber B limit of
              Inl e \<Rightarrow> Inl e
            | Inr n \<Rightarrow>
                Inr (case n of
                       NaN \<Rightarrow> Fin 200
                     | PosInf \<Rightarrow> Fin 500
                     | NegInf \<Rightarrow> Fin 1
                     | Fin r \<Rightarrow> if r = 0 then Fin 200 else if 500 < r then Fin 500
                                else if r < 1 then Fin 1 else Fin r)))"
  unfolding safeLimit_def clamp_cases
  by (simp add: ToNumber_def and_then_def split: sum.splits)

lemma ToNumber_throws:
  "isl (ToNumber B v) \<longleftrightarrow> isl (ToString B v)"
  by (cases v) (auto simp: ToNumber_def and_then_def split: sum.splits)

text \<open>
  Claim C10.  Wherever \<^verbatim>\<open>traktFetchHistory\<close> sends a request, the limit in it is a finite
  number between 1 and 500.  It is 200 when the argument is missing or null, and when its
  numeric value \<^verbatim>\<open>Number(limit)\<close> is zero or is not a number; it is 500 when the numeric
  value is above 500, and 1 when the numeric value is below 1 and not zero; a numeric value
  from 1 to 500 is sent as it is.  The request carries that limit in its URL, and it is the
  only request.  Where \<^verbatim>\<open>Number(limit)\<close> throws (the limit is an object with a member
  \<^verbatim>\<open>toString\<close>, or an array that holds one), the call throws the same error and sends no
  request.
\<close>

theorem safeLimit_clamped:
  "(\<forall>n. safeLimit B limit = Inr n \<longrightarrow> (\<exists>r. n = Fin r \<and> 1 \<le> r \<and> r \<le> 500))
   \<and> (\<forall>e. safeLimit B limit = Inl e \<longleftrightarrow> ToNumber B limit = Inl e)
   \<and> (isl (ToNumber B limit) \<longleftrightarrow> isl (ToString B limit))
   \<and> (\<forall>kvs. limit = JObj kvs \<longrightarrow>
         (isl (ToNumber B limit) \<longleftrightarrow> map_of kvs ''toString'' \<noteq> None))
   \<and> (limit = JUndefined \<or> limit = JNull \<or> ToNumber B limit = Inr (Fin 0)
        \<or> ToNumber B limit = Inr NaN \<longrightarrow>
        safeLimit B limit = Inr (Fin 200))
   \<and> (ToNumber B limit = Inr PosInf \<or> (\<exists>r. ToNumber B limit = Inr (Fin r) \<and> 500 < r) \<longrightarrow>
        safeLimit B limit = Inr (Fin 500))
   \<and> (ToNumber B limit = Inr NegInf \<or> (\<exists>r. ToNumber B limit = Inr (Fin r) \<and> r < 1 \<and> r \<noteq> 0) \<longrightarrow>
        safeLimit B limit = Inr (Fin 1))
   \<and> (\<forall>r. ToNumber B limit = Inr (Fin r) \<and> 1 \<le> r \<and> r \<le> 500 \<longrightarrow>
        safeLimit B limit = Inr (Fin r))
   \<and> (trakt_configured E \<longrightarrow>
        snd (traktFetchHistory B E get limit) =
          (case safeLimit B limit of
             Inl e \<Rightarrow> []
           | Inr n \<Rightarrow> [TraktGet (''https://api.trakt.tv/sync/history/movies?limit='' @
                                 num_to_string B n)]))
   \<and> (trakt_configured E \<longrightarrow>
        (\<forall>e. safeLimit B limit = Inl e \<longrightarrow> fst (traktFetchHistory B E get limit) = Inl e))"
proof -
  have 1: "\<forall>n. safeLimit B limit = Inr n \<longrightarrow> (\<exists>r. n = Fin r \<and> 1 \<le> r \<and> r \<le> 500)"
    using clamp_range by (auto simp: safeLimit_def and_then_def split: sum.splits)
  have 2: "\<forall>e. safeLimit B limit = Inl e \<longleftrightarrow> ToNumber B limit = Inl e"
    by (auto simp: safeLimit_cases ToNumber_def split: sum.splits)
  have 3: "isl (ToNumber B limit) \<longleftrightarrow> isl (ToString B limit)"
    by (rule ToNumber_throws)
  have 4: "\<forall>kvs. limit = JObj kvs \<longrightarrow>
         (isl (ToNumber B limit) \<longleftrightarrow> map_of kvs ''toString'' \<noteq> None)"
    by (auto simp: ToNumber_throws)
  have 5: "limit = JUndefined \<or> limit = JNull \<or> ToNumber B limit = Inr (Fin 0)
        \<or> ToNumber B limit = Inr NaN \<longrightarrow>
        safeLimit B limit = Inr (Fin 200)"
    by (auto simp: safeLimit_cases ToNumber_def)
  have 6: "ToNumber B limit = Inr PosInf \<or> (\<exists>r. ToNumber B limit = Inr (Fin r) \<and> 500 < r) \<longrightarrow>
        safeLimit B limit = Inr (Fin 500)"
    by (auto simp: safeLimit_cases ToNumber_def)
  have 7: "ToNumber B limit = Inr NegInf \<or> (\<exists>r. ToNumber B limit = Inr (Fin r) \<and> r < 1 \<and> r \<noteq> 0) \<longrightarrow>
        safeLimit B limit = Inr (Fin 1)"
    by (auto simp: safeLimit_cases ToNumber_def)
  have 8: "\<forall>r. ToNumber B limit = Inr (Fin r) \<and> 1 \<le> r \<and> r \<le> 500 \<longrightarrow>
        safeLimit B limit = Inr (Fin r)"
    by (auto simp: safeLimit_cases ToNumber_def)
  have 9: "trakt_configured E \<longrightarrow>
        snd (traktFetchHistory B E get limit) =
          (case safeLimit B limit of
             Inl e \<Rightarrow> []
           | Inr n \<Rightarrow> [TraktGet (''https://api.trakt.tv/sync/history/movies?limit='' @
                                 num_to_string B n)])"
    by (simp add: traktFetchHistory_def split: sum.splits)
  have 10: "trakt_configured E \<longrightarrow>
        (\<forall>e. safeLimit B limit = Inl e \<longrightarrow> fst (traktFetchHistory B E get limit) = Inl e)"
    by (simp add: traktFetchHistory_def split: sum.splits)
  from 1 2 3 4 5 6 7 8 9 10 show ?thesis by (intro conjI)
qed

text \<open>Examples: a missing, a null, a zero and a non-numeric limit, the limits 1000, -3 and
  50, and a limit that is the object \<^verbatim>\<open>{"toString":0}\<close>.\<close>

theorem safeLimit_clamped_witness:
  "safeLimit demo_runtime JUndefined = Inr (Fin 200)
   \<and> safeLimit demo_runtime JNull = Inr (Fin 200)
   \<and> safeLimit demo_runtime (JNum (Fin 0)) = Inr (Fin 200)
   \<and> safeLimit demo_runtime (JStr ''abc'') = Inr (Fin 200)
   \<and> safeLimit demo_runtime (JNum (Fin 1000)) = Inr (Fin 500)
   \<and> safeLimit demo_runtime (JNum (Fin (- 3))) = Inr (Fin 1)
   \<and> safeLimit demo_runtime (JNum (Fin 50)) = Inr (Fin 50)
   \<and> snd (traktFetchHistory demo_runtime demo_env (Inl (FetchError ''down'')) (JNum (Fin 1000))) =
       [TraktGet ''https://api.trakt.tv/sync/history/movies?limit=500'']
   \<and> safeLimit demo_runtime (JObj [(''toString'', JNum (Fin 0))]) = Inl cannot_convert
   \<and> traktFetchHistory demo_runtime demo_env (Inl (FetchError ''down''))
       (JObj [(''toString'', JNum (Fin 0))]) = (Inl cannot_convert, [])"
proof -
  let ?o = "JObj [(''toString'', JNum (Fin 0))]"
  let ?down = "Inl (FetchError ''down'') :: js_error + response"
  have n: "ToNumber demo_runtime (JNum (Fin 0)) = Inr (Fin 0)"
    "ToNumber demo_runtime (JStr ''abc'') = Inr NaN"
    "ToNumber demo_runtime (JNum (Fin 1000)) = Inr (Fin 1000)"
    "ToNumber demo_runtime (JNum (Fin (- 3))) = Inr (Fin (- 3))"
    "ToNumber demo_runtime (JNum (Fin 50)) = Inr (Fin 50)"
    "ToNumber demo_runtime ?o = Inl cannot_convert"
    by code_simp+
  have c: "trakt_configured demo_env" by code_simp
  have s: "num_to_string demo_runtime (Fin 500) = ''500''" by code_simp
  have "JUndefined = JUndefined \<or> JUndefined = JNull \<or> ToNumber demo_runtime (JUndefined) = Inr (Fin 0)
        \<or> ToNumber demo_runtime (JUndefined) = Inr NaN \<longrightarrow>
        safeLimit demo_runtime (JUndefined) = Inr (Fin 200)"
    using safeLimit_clamped[of demo_runtime "JUndefined" demo_env ?down] by - (elim conjE)
  then have a1: "safeLimit demo_runtime (JUndefined) = Inr (Fin 200)"
    by (simp add: n)
  have "JNull = JUndefined \<or> JNull = JNull \<or> ToNumber demo_runtime (JNull) = Inr (Fin 0)
        \<or> ToNumber demo_runtime (JNull) = Inr NaN \<longrightarrow>
        safeLimit demo_runtime (JNull) = Inr (Fin 200)"
    using safeLimit_clamped[of demo_runtime "JNull" demo_env ?down] by - (elim conjE)
  then have a2: "safeLimit demo_runtime (JNull) = Inr (Fin 200)"
    by (simp add: n)
  have "JNum (Fin 0) = JUndefined \<or> JNum (Fin 0) = JNull \<or> ToNumber demo_runtime (JNum (Fin 0)) = Inr (Fin 0)
        \<or> ToNumber demo_runtime (JNum (Fin 0)) = Inr NaN \<longrightarrow>
        safeLimit demo_runtime (JNum (Fin 0)) = Inr (Fin 200)"
    using safeLimit_clamped[of demo_runtime "JNum (Fin 0)" demo_env ?down] by - (elim conjE)
  then have a3: "safeLimit demo_runtime (JNum (Fin 0)) = Inr (Fin 200)"
    by (simp add: n)
  have "JStr ''abc'' = JUndefined \<or> JStr ''abc'' = JNull \<or> ToNumber demo_runtime (JStr ''abc'') = Inr (Fin 0)
        \<or> ToNumber demo_runtime (JStr ''abc'') = Inr NaN \<longrightarrow>
        safeLimit demo_runtime (JStr ''abc'') = Inr (Fin 200)"
    using safeLimit_clamped[of demo_runtime "JStr ''abc''" demo_env ?down] by - (elim conjE)
  then have a4: "safeLimit demo_runtime (JStr ''abc'') = Inr (Fin 200)"
    by (simp add: n)
  note big = safeLimit_clamped[of demo_runtime "JNum (Fin 1000)" demo_env ?down]
  have "ToNumber demo_runtime (JNum (Fin 1000)) = Inr PosInf
        \<or> (\<exists>r. ToNumber demo_runtime (JNum (Fin 1000)) = Inr (Fin r) \<and> 500 < r) \<longrightarrow>
        safeLimit demo_runtime (JNum (Fin 1000)) = Inr (Fin 500)"
    using big by - (elim conjE)
  then have a5: "safeLimit demo_runtime (JNum (Fin 1000)) = Inr (Fin 500)"
    by (simp add: n)
  have "ToNumber demo_runtime (JNum (Fin (- 3))) = Inr NegInf
        \<or> (\<exists>r. ToNumber demo_runtime (JNum (Fin (- 3))) = Inr (Fin r) \<and> r < 1 \<and> r \<noteq> 0) \<longrightarrow>
        safeLimit demo_runtime (JNum (Fin (- 3))) = Inr (Fin 1)"
    using safeLimit_clamped[of demo_runtime "JNum (Fin (- 3))" demo_env ?down] by - (elim conjE)
  then have a6: "safeLimit demo_runtime (JNum (Fin (- 3))) = Inr (Fin 1)"
    by (simp add: n)
  have "\<forall>r. ToNumber demo_runtime (JNum (Fin 50)) = Inr (Fin r) \<and> 1 \<le> r \<and> r \<le> 500 \<longrightarrow>
        safeLimit demo_runtime (JNum (Fin 50)) = Inr (Fin r)"
    using safeLimit_clamped[of demo_runtime "JNum (Fin 50)" demo_env ?down] by - (elim conjE)
  then have a7: "safeLimit demo_runtime (JNum (Fin 50)) = Inr (Fin 50)"
    by (simp add: n)
  have "trakt_configured demo_env \<longrightarrow>
        snd (traktFetchHistory demo_runtime demo_env ?down (JNum (Fin 1000))) =
          (case safeLimit demo_runtime (JNum (Fin 1000)) of
             Inl e \<Rightarrow> []
           | Inr n \<Rightarrow> [TraktGet (''https://api.trakt.tv/sync/history/movies?limit='' @
                                 num_to_string demo_runtime n)])"
    using big by - (elim conjE)
  then have b: "snd (traktFetchHistory demo_runtime demo_env ?down (JNum (Fin 1000))) =
       [TraktGet ''https://api.trakt.tv/sync/history/movies?limit=500'']"
    by (simp add: a5 s c)
  note obj = safeLimit_clamped[of demo_runtime ?o demo_env ?down]
  have "\<forall>e. safeLimit demo_runtime ?o = Inl e \<longleftrightarrow> ToNumber demo_runtime ?o = Inl e"
    using obj by - (elim conjE)
  then have d: "safeLimit demo_runtime ?o = Inl cannot_convert"
    by (simp add: n)
  have "trakt_configured demo_env \<longrightarrow>
        (\<forall>e. safeLimit demo_runtime ?o = Inl e \<longrightarrow>
             fst (traktFetchHistory demo_runtime demo_env ?down ?o) = Inl e)"
    using obj by - (elim conjE)
  then have d1: "fst (traktFetchHistory demo_runtime demo_env ?down ?o) = Inl cannot_convert"
    by (simp add: d c)
  have "trakt_configured demo_env \<longrightarrow>
        snd (traktFetchHistory demo_runtime demo_env ?down ?o) =
          (case safeLimit demo_runtime ?o of
             Inl e \<Rightarrow> []
           | Inr n \<Rightarrow> [TraktGet (''https://api.trakt.tv/sync/history/movies?limit='' @
                                 num_to_string demo_runtime n)])"
    using obj by - (elim conjE)
  then have d2: "snd (traktFetchHistory demo_runtime demo_env ?down ?o) = []"
    by (simp add: d c)
  from d1 d2 have d': "traktFetchHistory demo_runtime demo_env ?down ?o = (Inl cannot_convert, [])"
    by (simp add: prod_eq_iff)
  from a1 a2 a3 a4 a5 a6 a7 b d d' show ?thesis by (intro conjI)
qed

end
